theory Spec2Isabelle
  imports Main "HOL-Library.Word" "HOL-Library.Char_ord" "HOL-Library.List_Lexorder"
begin

section \<open>Strings and keys\<close>

text \<open>
  A Go string is a sequence of bytes, and so is a \<^typ>\<open>string\<close> here: \<open>len\<close> is
  \<^const>\<open>length\<close>, \<open>s[:n]\<close> is \<^const>\<open>take\<close> and \<open>s[n:]\<close> is \<^const>\<open>drop\<close>. A byte slice
  (\<open>[]byte\<close>) is a \<^typ>\<open>string\<close> too; the nil slice is the empty one.
\<close>

type_synonym bytes = string

text \<open>
  \<open>splitKey\<close> ranges over the runes of \<open>key\<close> with their byte offsets and returns at the
  first \<open>':'\<close>. The colon is an ASCII character, and no byte of a longer UTF-8 sequence
  (nor an invalid byte, which the loop reads as U+FFFD) equals it, so the loop is a scan
  over the byte offsets \<open>i\<close>.
\<close>

function splitKey_from :: "string \<Rightarrow> nat \<Rightarrow> string \<times> string" where
  "splitKey_from key i =
     (if i < length key then
        (if key ! i = CHR '':'' then (take i key, drop (i + 1) key)
         else splitKey_from key (i + 1))
      else (key, []))"
  by pat_completeness auto
termination
  by (relation "measure (\<lambda>(key, i). length key - i)") auto

declare splitKey_from.simps [simp del]

definition splitKey :: "string \<Rightarrow> string \<times> string" where
  "splitKey key = splitKey_from key 0"

text \<open>
  \<open>matchPath\<close>: the second conjunct of the wildcard branch slices \<open>path\<close> only after the
  length test has passed, as the short-circuit \<open>&&\<close> of the source does.
\<close>

definition matchPath :: "string \<Rightarrow> string \<Rightarrow> bool" where
  "matchPath pattern path =
     (if pattern = path then True
      else if length pattern > 0 \<and> pattern ! (length pattern - 1) = CHR ''*'' then
        length path \<ge> length pattern - 1 \<and>
        take (length pattern - 1) path = take (length pattern - 1) pattern
      else False)"

section \<open>Values exchanged with handlers\<close>

text \<open>
  A handler is a Go closure: besides returning a value it may change what it captured.
  The model threads that through a state \<open>'w\<close> (everything handlers can reach apart from
  the plugin's own registry, which dispatch only reads), so a handler is a function from
  its argument and \<open>'w\<close> to its result and the new \<open>'w\<close>. A function value may be nil in
  Go; a handler type is therefore an \<open>option\<close>, \<open>None\<close> being nil, and calling it
  panics. \<open>'j\<close> is the type of decoded JSON documents (\<open>map[string]interface{}\<close>);
  \<open>None\<close> is the nil map.
\<close>

record Event =
  Event_Type :: string
  Event_Data :: "string \<rightharpoonup> string"
  Event_Sync :: bool

record EventResult =
  allow :: bool
  message :: string

definition Allow :: EventResult where
  "Allow = \<lparr>allow = True, message = []\<rparr>"

definition Block :: "string \<Rightarrow> EventResult" where
  "Block msg = \<lparr>allow = False, message = msg\<rparr>"

record 'j Request =
  Request_Method :: string
  Request_Path :: string
  Request_Headers :: "string \<rightharpoonup> string"
  Request_Query :: "string \<rightharpoonup> string"
  Request_Body :: "'j option"
  Request_RawBody :: bytes
  Request_UserID :: string

text \<open>\<open>Status\<close> is a Go \<open>int\<close>; the dispatcher narrows it with \<open>int32(...)\<close>.\<close>

record Response =
  Response_Status :: int
  Response_Headers :: "string \<rightharpoonup> string"
  Response_body :: bytes

record AddonTypeRequest =
  AddonTypeRequest_TypeID :: string
  AddonTypeRequest_ServerID :: string
  AddonTypeRequest_NodeID :: string
  AddonTypeRequest_DownloadURL :: string
  AddonTypeRequest_FileName :: string
  AddonTypeRequest_InstallPath :: string
  AddonTypeRequest_SourceInfo :: "string \<rightharpoonup> string"
  AddonTypeRequest_ServerVariables :: "string \<rightharpoonup> string"

type_synonym AddonActionType = "32 word"

record AddonInstallAction =
  AddonInstallAction_Type :: AddonActionType
  AddonInstallAction_URL :: string
  AddonInstallAction_Path :: string
  AddonInstallAction_Content :: bytes
  AddonInstallAction_Command :: string
  AddonInstallAction_Headers :: "string \<rightharpoonup> string"
  AddonInstallAction_NodePayload :: bytes
  AddonInstallAction_NodeEndpoint :: string

record AddonTypeResponse =
  AddonTypeResponse_Success :: bool
  AddonTypeResponse_Error :: string
  AddonTypeResponse_Message :: string
  AddonTypeResponse_Actions :: "AddonInstallAction list"

text \<open>
  Modelled from the spec: the mixin declarations (\<open>MixinHandler\<close>, \<open>MixinContext\<close>,
  \<open>MixinResult\<close>, \<open>MixinRegistration\<close>, \<open>Notification\<close>) are in a file of the
  repository that is not among the sources. Their fields are the ones \<open>handleMixin\<close>,
  \<open>MixinWithPriority\<close> and \<open>buildInfo\<close> read and write; the action verdict is the
  vocabulary of the spec's data model (continue, short-circuit, block), which the engine
  passes through unchanged.
\<close>

datatype MixinAction = MixinResponse_NEXT | MixinResponse_SHORT_CIRCUIT | MixinResponse_BLOCK

record Notification =
  Notification_Title :: string
  Notification_Message :: string
  Notification_Type :: string

record 'j MixinContext =
  MixinContext_Target :: string
  MixinContext_RequestID :: string
  MixinContext_input :: "'j option"
  MixinContext_chainData :: "'j option"

record 'j MixinResult =
  MixinResult_action :: MixinAction
  MixinResult_output :: "'j option"
  MixinResult_err :: string
  MixinResult_modifiedInput :: "'j option"
  MixinResult_notifications :: "Notification list"

type_synonym 'w EventHandler = "(Event \<Rightarrow> 'w \<Rightarrow> EventResult \<times> 'w) option"
type_synonym ('w, 'j) RouteHandler = "('j Request \<Rightarrow> 'w \<Rightarrow> Response \<times> 'w) option"
type_synonym 'w ScheduleHandler = "('w \<Rightarrow> 'w) option"
type_synonym 'w AddonTypeHandler = "(AddonTypeRequest \<Rightarrow> 'w \<Rightarrow> AddonTypeResponse \<times> 'w) option"
type_synonym ('w, 'j) MixinHandler = "('j MixinContext \<Rightarrow> 'w \<Rightarrow> 'j MixinResult \<times> 'w) option"

record ('w, 'j) MixinRegistration =
  MixinRegistration_Target :: string
  MixinRegistration_Priority :: int
  MixinRegistration_Handler :: "('w, 'j) MixinHandler"

record ('w, 'j) RouteConfig =
  RouteConfig_Method :: string
  RouteConfig_Path :: string
  RouteConfig_Handler :: "('w, 'j) RouteHandler"
  RouteConfig_RateLimitPreset :: string
  RouteConfig_RateLimitRPM :: int
  RouteConfig_RateLimitBurst :: int

section \<open>Envelopes\<close>

text \<open>
  The generated protocol package \<open>pb\<close> is not part of the sources; each message has the
  fields the dispatcher reads or writes. \<open>PanelMessage_Other\<close> stands for every payload the
  \<open>switch\<close> of \<open>handleMessage\<close> does not name (an unset payload included).
\<close>

record pb_Event =
  pb_Event_Type :: string
  pb_Event_Data :: "string \<rightharpoonup> string"
  pb_Event_Sync :: bool

record pb_HTTPRequest =
  pb_HTTPRequest_Method :: string
  pb_HTTPRequest_Path :: string
  pb_HTTPRequest_Headers :: "string \<rightharpoonup> string"
  pb_HTTPRequest_Query :: "string \<rightharpoonup> string"
  pb_HTTPRequest_Body :: bytes
  pb_HTTPRequest_UserId :: string

record pb_ScheduleRequest =
  pb_ScheduleRequest_ScheduleId :: string

record pb_MixinRequest =
  pb_MixinRequest_Target :: string
  pb_MixinRequest_RequestId :: string
  pb_MixinRequest_Input :: bytes
  pb_MixinRequest_ChainData :: bytes

record pb_AddonTypeRequest =
  pb_AddonTypeRequest_TypeId :: string
  pb_AddonTypeRequest_ServerId :: string
  pb_AddonTypeRequest_NodeId :: string
  pb_AddonTypeRequest_DownloadUrl :: string
  pb_AddonTypeRequest_FileName :: string
  pb_AddonTypeRequest_InstallPath :: string
  pb_AddonTypeRequest_SourceInfo :: "string \<rightharpoonup> string"
  pb_AddonTypeRequest_ServerVariables :: "string \<rightharpoonup> string"

datatype PanelPayload =
    PanelMessage_Event pb_Event
  | PanelMessage_Http pb_HTTPRequest
  | PanelMessage_Schedule pb_ScheduleRequest
  | PanelMessage_Mixin pb_MixinRequest
  | PanelMessage_AddonType pb_AddonTypeRequest
  | PanelMessage_Shutdown
  | PanelMessage_Registered
  | PanelMessage_Other

record PanelMessage =
  PanelMessage_RequestId :: string
  PanelMessage_Payload :: PanelPayload

record pb_EventResponse =
  pb_EventResponse_Allow :: bool
  pb_EventResponse_Message :: string

record pb_HTTPResponse =
  pb_HTTPResponse_Status :: "32 word"
  pb_HTTPResponse_Headers :: "string \<rightharpoonup> string"
  pb_HTTPResponse_Body :: bytes

record pb_Notification =
  pb_Notification_Title :: string
  pb_Notification_Message :: string
  pb_Notification_Type :: string

record pb_MixinResponse =
  pb_MixinResponse_Action :: MixinAction
  pb_MixinResponse_Output :: bytes
  pb_MixinResponse_Error :: string
  pb_MixinResponse_ModifiedInput :: bytes
  pb_MixinResponse_Notifications :: "pb_Notification list"

record pb_AddonInstallAction =
  pb_AddonInstallAction_Type :: "32 word"
  pb_AddonInstallAction_Url :: string
  pb_AddonInstallAction_Path :: string
  pb_AddonInstallAction_Content :: bytes
  pb_AddonInstallAction_Command :: string
  pb_AddonInstallAction_Headers :: "string \<rightharpoonup> string"
  pb_AddonInstallAction_NodePayload :: bytes
  pb_AddonInstallAction_NodeEndpoint :: string

record pb_AddonTypeResponse =
  pb_AddonTypeResponse_Success :: bool
  pb_AddonTypeResponse_Error :: string
  pb_AddonTypeResponse_Message :: string
  pb_AddonTypeResponse_Actions :: "pb_AddonInstallAction list"

record pb_RateLimitConfig =
  pb_RateLimitConfig_Preset :: string
  pb_RateLimitConfig_RequestsPerMinute :: "32 word"
  pb_RateLimitConfig_BurstLimit :: "32 word"

record pb_RouteInfo =
  pb_RouteInfo_Method :: string
  pb_RouteInfo_Path :: string
  pb_RouteInfo_RateLimit :: "pb_RateLimitConfig option"

record pb_ScheduleInfo =
  pb_ScheduleInfo_Id :: string
  pb_ScheduleInfo_Cron :: string

record pb_MixinInfo =
  pb_MixinInfo_Target :: string
  pb_MixinInfo_Priority :: "32 word"

text \<open>
  \<open>buildInfo\<close> fills \<open>Events\<close>, \<open>Routes\<close>, \<open>Schedules\<close> and \<open>AddonTypes\<close> by ranging
  over a map, in the order of that one traversal; such a list is kept here as the set of
  its elements. The user-interface descriptor (\<open>Ui\<close>) is left out: no dispatch reads it.
\<close>

record pb_PluginInfo =
  pb_PluginInfo_Id :: string
  pb_PluginInfo_Name :: string
  pb_PluginInfo_Version :: string
  pb_PluginInfo_Events :: "string set"
  pb_PluginInfo_Routes :: "pb_RouteInfo set"
  pb_PluginInfo_Schedules :: "pb_ScheduleInfo set"
  pb_PluginInfo_Mixins :: "pb_MixinInfo list"
  pb_PluginInfo_AddonTypes :: "string set"

datatype PluginPayload =
    PluginMessage_Register pb_PluginInfo
  | PluginMessage_EventResponse pb_EventResponse
  | PluginMessage_HttpResponse pb_HTTPResponse
  | PluginMessage_ScheduleResponse
  | PluginMessage_MixinResponse pb_MixinResponse
  | PluginMessage_AddonTypeResponse pb_AddonTypeResponse

record PluginMessage =
  PluginMessage_RequestId :: string
  PluginMessage_Payload :: PluginPayload

section \<open>The plugin\<close>

text \<open>
  A channel of \<open>*pb.PanelMessage\<close>: the values sent and not yet received (\<open>None\<close> is a nil
  pointer) and whether it has been closed. A receive on it returns once something was
  sent or the channel was closed.
\<close>

record chan =
  chan_queue :: "PanelMessage option list"
  chan_closed :: bool

definition fulfilled :: "chan \<Rightarrow> bool" where
  "fulfilled c \<longleftrightarrow> chan_queue c \<noteq> [] \<or> chan_closed c"

text \<open>
  The registry and the correlation table. The connection handles (\<open>panel\<close>, \<open>conn\<close>,
  \<open>api\<close>, \<open>asyncApi\<close>), the mutex and the user-interface builder are left out: what the
  transport does is an input of \<open>Start\<close> below.
\<close>

record ('w, 'j) Plugin =
  plugin_id :: string
  name :: string
  version :: string
  events :: "string \<rightharpoonup> 'w EventHandler"
  routes :: "string \<rightharpoonup> ('w, 'j) RouteConfig"
  schedule :: "string \<rightharpoonup> 'w ScheduleHandler"
  mixins :: "('w, 'j) MixinRegistration list"
  addonTypes :: "string \<rightharpoonup> 'w AddonTypeHandler"
  dataDir :: string
  useDataDir :: bool
  onStart :: "('w \<Rightarrow> 'w) option"
  pending :: "string \<rightharpoonup> chan"

definition New :: "string \<Rightarrow> string \<Rightarrow> ('w, 'j) Plugin" where
  "New i v =
     \<lparr>plugin_id = i, name = i, version = v, events = Map.empty, routes = Map.empty,
      schedule = Map.empty, mixins = [], addonTypes = Map.empty, dataDir = [],
      useDataDir = False, onStart = None, pending = Map.empty\<rparr>"

definition SetName :: "string \<Rightarrow> ('w, 'j) Plugin \<Rightarrow> ('w, 'j) Plugin" where
  "SetName n p = p\<lparr>name := n\<rparr>"

definition UseDataDir :: "('w, 'j) Plugin \<Rightarrow> ('w, 'j) Plugin" where
  "UseDataDir p = p\<lparr>useDataDir := True\<rparr>"

definition OnStart :: "('w \<Rightarrow> 'w) option \<Rightarrow> ('w, 'j) Plugin \<Rightarrow> ('w, 'j) Plugin" where
  "OnStart fn p = p\<lparr>onStart := fn\<rparr>"

definition OnEvent :: "string \<Rightarrow> 'w EventHandler \<Rightarrow> ('w, 'j) Plugin \<Rightarrow> ('w, 'j) Plugin" where
  "OnEvent eventType handler p = p\<lparr>events := (events p)(eventType \<mapsto> handler)\<rparr>"

definition Route ::
  "string \<Rightarrow> string \<Rightarrow> ('w, 'j) RouteHandler \<Rightarrow> ('w, 'j) Plugin \<Rightarrow> ('w, 'j) Plugin" where
  "Route method path handler p =
     (let cfg = \<lparr>RouteConfig_Method = method, RouteConfig_Path = path,
                 RouteConfig_Handler = handler, RouteConfig_RateLimitPreset = [],
                 RouteConfig_RateLimitRPM = 0, RouteConfig_RateLimitBurst = 0\<rparr>
      in p\<lparr>routes := (routes p)(method @ '':'' @ path \<mapsto> cfg)\<rparr>)"

definition Schedule ::
  "string \<Rightarrow> string \<Rightarrow> 'w ScheduleHandler \<Rightarrow> ('w, 'j) Plugin \<Rightarrow> ('w, 'j) Plugin" where
  "Schedule i cron handler p = p\<lparr>schedule := (schedule p)(i @ '':'' @ cron \<mapsto> handler)\<rparr>"

definition MixinWithPriority ::
  "string \<Rightarrow> int \<Rightarrow> ('w, 'j) MixinHandler \<Rightarrow> ('w, 'j) Plugin \<Rightarrow> ('w, 'j) Plugin" where
  "MixinWithPriority target priority handler p =
     p\<lparr>mixins := mixins p @
        [\<lparr>MixinRegistration_Target = target, MixinRegistration_Priority = priority,
          MixinRegistration_Handler = handler\<rparr>]\<rparr>"

definition Mixin :: "string \<Rightarrow> ('w, 'j) MixinHandler \<Rightarrow> ('w, 'j) Plugin \<Rightarrow> ('w, 'j) Plugin" where
  "Mixin target handler p = MixinWithPriority target 0 handler p"

definition AddonType ::
  "string \<Rightarrow> string \<Rightarrow> string \<Rightarrow> 'w AddonTypeHandler \<Rightarrow> ('w, 'j) Plugin \<Rightarrow> ('w, 'j) Plugin" where
  "AddonType typeID nm description handler p =
     p\<lparr>addonTypes := (addonTypes p)(typeID \<mapsto> handler)\<rparr>"

text \<open>
  Modelled from the spec: no function among the sources puts a call in the correlation
  table (\<open>pending\<close> is declared and made empty by \<open>New\<close>, and that is all). The spec's
  correlation table (section 4.7) has the caller of an outbound call create a single-slot
  receptacle and record it under a correlation id that is not pending, before it sends the
  request and waits on the receptacle. \<open>registerPending\<close> is that step.
\<close>

definition registerPending :: "string \<Rightarrow> ('w, 'j) Plugin \<Rightarrow> ('w, 'j) Plugin" where
  "registerPending correlationId p =
     p\<lparr>pending := (pending p)(correlationId \<mapsto> \<lparr>chan_queue = [], chan_closed = False\<rparr>)\<rparr>"

section \<open>JSON\<close>

text \<open>
  Documents of the panel are decoded and encoded by the standard library
  (\<open>json.Unmarshal\<close> into a \<open>map[string]interface{}\<close>, and \<open>json.Marshal\<close>); the
  dispatcher ignores their errors. They are parameters: \<open>Unmarshal\<close> returns \<open>None\<close>
  where the target map stays nil, \<open>Marshal\<close> the bytes written (none on an error).
\<close>

record 'j JSON =
  Unmarshal :: "bytes \<Rightarrow> 'j option"
  Marshal :: "'j \<Rightarrow> bytes"

text \<open>
  \<open>errorResponse\<close> marshals a map literal of a boolean and a string. The standard
  library writes a map as an object with its keys sorted (as byte strings), without
  white space, and a string between double quotes, byte by byte:
  \<^item> an ASCII byte is copied, but the double quote and the backslash get a backslash,
    backspace, form feed, line feed, carriage return and tab are \<open>\b\<close>, \<open>\f\<close>, \<open>\n\<close>,
    \<open>\r\<close>, \<open>\t\<close>, and the other control bytes below \<open>0x20\<close> and \<open><\<close>, \<open>>\<close>, \<open>&\<close>
    are \<open>\u00XX\<close>;
  \<^item> a byte from \<open>0x80\<close> on that starts no well-formed UTF-8 sequence is written as
    \<open>\ufffd\<close>, and the scan goes on at the next byte;
  \<^item> a well-formed UTF-8 sequence is copied, but U+2028 and U+2029 are written as
    \<open>\u2028\<close> and \<open>\u2029\<close>.
  \<open>utf8_size\<close> is the length of the well-formed sequence at the head of a string whose
  first byte is \<open>0x80\<close> or more, and 0 when there is none.
\<close>

datatype jvalue = JBool bool | JString string

definition hexDigit :: "nat \<Rightarrow> char" where
  "hexDigit n = ''0123456789abcdef'' ! (n mod 16)"

definition jsonEscape :: "char \<Rightarrow> string" where
  "jsonEscape c =
     (if c = CHR 0x22 then [CHR 0x5C, CHR 0x22]
      else if c = CHR 0x5C then [CHR 0x5C, CHR 0x5C]
      else if c = CHR 0x08 then [CHR 0x5C, CHR ''b'']
      else if c = CHR 0x0C then [CHR 0x5C, CHR ''f'']
      else if c = CHR 0x0A then [CHR 0x5C, CHR ''n'']
      else if c = CHR 0x0D then [CHR 0x5C, CHR ''r'']
      else if c = CHR 0x09 then [CHR 0x5C, CHR ''t'']
      else if of_char c < (0x20 :: nat) \<or> c = CHR ''<'' \<or> c = CHR ''>'' \<or> c = CHR ''&'' then
        [CHR 0x5C, CHR ''u'', CHR ''0'', CHR ''0'',
         hexDigit (of_char c div 16), hexDigit (of_char c)]
      else [c])"

definition inRange :: "nat \<Rightarrow> nat \<Rightarrow> char \<Rightarrow> bool" where
  "inRange lo hi c \<longleftrightarrow> lo \<le> of_char c \<and> of_char c \<le> hi"

fun continuation :: "nat \<Rightarrow> string \<Rightarrow> bool" where
  "continuation 0 s = True"
| "continuation (Suc n) [] = False"
| "continuation (Suc n) (c # s) = (inRange 0x80 0xBF c \<and> continuation n s)"

fun utf8_size :: "string \<Rightarrow> nat" where
  "utf8_size [] = 0"
| "utf8_size [b0] = 0"
| "utf8_size (b0 # b1 # s) =
     (if inRange 0xC2 0xDF b0 then (if inRange 0x80 0xBF b1 then 2 else 0)
      else if inRange 0xE0 0xEF b0 then
        (if inRange (if b0 = CHR 0xE0 then 0xA0 else 0x80) (if b0 = CHR 0xED then 0x9F else 0xBF) b1
            \<and> continuation 1 s
         then 3 else 0)
      else if inRange 0xF0 0xF4 b0 then
        (if inRange (if b0 = CHR 0xF0 then 0x90 else 0x80) (if b0 = CHR 0xF4 then 0x8F else 0xBF) b1
            \<and> continuation 2 s
         then 4 else 0)
      else 0)"

function jsonChars :: "string \<Rightarrow> bytes" where
  "jsonChars [] = []"
| "jsonChars (c # cs) =
     (if of_char c < (0x80 :: nat) then jsonEscape c @ jsonChars cs
      else if utf8_size (c # cs) = 0 then [CHR 0x5C] @ ''ufffd'' @ jsonChars cs
      else if take 3 (c # cs) = [CHR 0xE2, CHR 0x80, CHR 0xA8] then
        [CHR 0x5C] @ ''u2028'' @ jsonChars (drop 2 cs)
      else if take 3 (c # cs) = [CHR 0xE2, CHR 0x80, CHR 0xA9] then
        [CHR 0x5C] @ ''u2029'' @ jsonChars (drop 2 cs)
      else take (utf8_size (c # cs)) (c # cs) @ jsonChars (drop (utf8_size (c # cs) - 1) cs))"
  by pat_completeness auto
termination
  by (relation "measure length") auto

definition jsonString :: "string \<Rightarrow> bytes" where
  "jsonString s = [CHR 0x22] @ jsonChars s @ [CHR 0x22]"

fun jsonValue :: "jvalue \<Rightarrow> bytes" where
  "jsonValue (JBool b) = (if b then ''true'' else ''false'')"
| "jsonValue (JString s) = jsonString s"

fun jsonMembers :: "(string \<times> jvalue) list \<Rightarrow> bytes" where
  "jsonMembers [] = []"
| "jsonMembers [(k, v)] = jsonString k @ '':'' @ jsonValue v"
| "jsonMembers ((k, v) # kvs) = jsonString k @ '':'' @ jsonValue v @ '','' @ jsonMembers kvs"

definition json_Marshal :: "(string \<times> jvalue) list \<Rightarrow> bytes" where
  "json_Marshal m = ''{'' @ jsonMembers (sort_key fst m) @ ''}''"

section \<open>Ranging over a map\<close>

text \<open>
  Go gives the order of a \<open>range\<close> over a map no meaning, and it differs from one
  traversal to the next. A function that ranges over a map takes the order of its
  traversal as an argument: the keys in the order the loop meets them. \<open>rangeOrder\<close>
  says that a list is such an order for a map.
\<close>

definition rangeMap :: "'k list \<Rightarrow> ('k \<rightharpoonup> 'v) \<Rightarrow> ('k \<times> 'v) list" where
  "rangeMap order m = List.map_filter (\<lambda>k. map_option (Pair k) (m k)) order"

definition rangeOrder :: "('k \<rightharpoonup> 'v) \<Rightarrow> 'k list \<Rightarrow> bool" where
  "rangeOrder m order \<longleftrightarrow> distinct order \<and> set order = dom m"

section \<open>Dispatch\<close>

text \<open>
  What ends a dispatch other than its return: the call of a nil function (a run-time
  panic, which nothing recovers) and \<open>os.Exit\<close>.
\<close>

datatype fault = Panic | Exit int

definition reply :: "PluginPayload \<Rightarrow> PluginMessage" where
  "reply pl = \<lparr>PluginMessage_RequestId = [], PluginMessage_Payload = pl\<rparr>"

definition handleEvent ::
  "pb_Event \<Rightarrow> ('w, 'j) Plugin \<Rightarrow> 'w \<Rightarrow> fault + (PluginMessage \<times> ('w, 'j) Plugin \<times> 'w)" where
  "handleEvent ev p w =
     (case events p (pb_Event_Type ev) of
        None \<Rightarrow>
          Inr (reply (PluginMessage_EventResponse
                 \<lparr>pb_EventResponse_Allow = True, pb_EventResponse_Message = []\<rparr>), p, w)
      | Some handler \<Rightarrow>
          (case handler of
             None \<Rightarrow> Inl Panic
           | Some h \<Rightarrow>
               (let (result, w') =
                      h \<lparr>Event_Type = pb_Event_Type ev, Event_Data = pb_Event_Data ev,
                         Event_Sync = pb_Event_Sync ev\<rparr> w
                in Inr (reply (PluginMessage_EventResponse
                          \<lparr>pb_EventResponse_Allow = allow result,
                           pb_EventResponse_Message = message result\<rparr>), p, w'))))"

definition errorResponse :: "int \<Rightarrow> string \<Rightarrow> pb_HTTPResponse" where
  "errorResponse status msg =
     \<lparr>pb_HTTPResponse_Status = word_of_int status,
      pb_HTTPResponse_Headers = [''Content-Type'' \<mapsto> ''application/json''],
      pb_HTTPResponse_Body =
        json_Marshal [(''success'', JBool False), (''error'', JString msg)]\<rparr>"

text \<open>The test of the wildcard scan, and the scan over the routes in traversal order.\<close>

definition routeMatches :: "('w, 'j) RouteConfig \<Rightarrow> pb_HTTPRequest \<Rightarrow> bool" where
  "routeMatches c req \<longleftrightarrow>
     (RouteConfig_Method c = ''*'' \<or> RouteConfig_Method c = pb_HTTPRequest_Method req) \<and>
     matchPath (RouteConfig_Path c) (pb_HTTPRequest_Path req)"

fun scanRoutes ::
  "(string \<times> ('w, 'j) RouteConfig) list \<Rightarrow> pb_HTTPRequest \<Rightarrow> ('w, 'j) RouteConfig option" where
  "scanRoutes [] req = None"
| "scanRoutes ((k, c) # rest) req = (if routeMatches c req then Some c else scanRoutes rest req)"

text \<open>
  The first half of \<open>handleHTTP\<close>: the route \<open>cfg\<close> it settles on (\<open>None\<close> is the nil
  pointer), from the exact key or else from the scan.
\<close>

definition resolveRoute ::
  "string list \<Rightarrow> ('w, 'j) Plugin \<Rightarrow> pb_HTTPRequest \<Rightarrow> ('w, 'j) RouteConfig option" where
  "resolveRoute order p req =
     (case routes p (pb_HTTPRequest_Method req @ '':'' @ pb_HTTPRequest_Path req) of
        Some cfg \<Rightarrow> Some cfg
      | None \<Rightarrow> scanRoutes (rangeMap order (routes p)) req)"

text \<open>The second half: the call of the handler of \<open>cfg\<close> and the envelope made of its result.\<close>

definition callRoute ::
  "'j JSON \<Rightarrow> ('w, 'j) RouteConfig \<Rightarrow> pb_HTTPRequest \<Rightarrow> ('w, 'j) Plugin \<Rightarrow> 'w \<Rightarrow>
   fault + (PluginMessage \<times> ('w, 'j) Plugin \<times> 'w)" where
  "callRoute J cfg req p w =
     (let body = Unmarshal J (pb_HTTPRequest_Body req) in
      case RouteConfig_Handler cfg of
        None \<Rightarrow> Inl Panic
      | Some h \<Rightarrow>
          (let (resp, w') =
                 h \<lparr>Request_Method = pb_HTTPRequest_Method req,
                    Request_Path = pb_HTTPRequest_Path req,
                    Request_Headers = pb_HTTPRequest_Headers req,
                    Request_Query = pb_HTTPRequest_Query req,
                    Request_Body = body,
                    Request_RawBody = pb_HTTPRequest_Body req,
                    Request_UserID = pb_HTTPRequest_UserId req\<rparr> w
           in Inr (reply (PluginMessage_HttpResponse
                     \<lparr>pb_HTTPResponse_Status = word_of_int (Response_Status resp),
                      pb_HTTPResponse_Headers = Response_Headers resp,
                      pb_HTTPResponse_Body = Response_body resp\<rparr>), p, w')))"

definition handleHTTP ::
  "'j JSON \<Rightarrow> string list \<Rightarrow> pb_HTTPRequest \<Rightarrow> ('w, 'j) Plugin \<Rightarrow> 'w \<Rightarrow>
   fault + (PluginMessage \<times> ('w, 'j) Plugin \<times> 'w)" where
  "handleHTTP J order req p w =
     (case resolveRoute order p req of
        None \<Rightarrow> Inr (reply (PluginMessage_HttpResponse (errorResponse 404 ''not found'')), p, w)
      | Some cfg \<Rightarrow> callRoute J cfg req p w)"

text \<open>
  \<open>handleSchedule\<close>: the loop over the schedule map in traversal order; it calls the
  handler of the first key whose part before the colon is the trigger's id, and stops.
\<close>

fun scheduleLoop :: "(string \<times> 'w ScheduleHandler) list \<Rightarrow> string \<Rightarrow> 'w \<Rightarrow> fault + 'w" where
  "scheduleLoop [] scheduleId w = Inr w"
| "scheduleLoop ((key, handler) # rest) scheduleId w =
     (let (i, _) = splitKey key in
      if i = scheduleId then (case handler of None \<Rightarrow> Inl Panic | Some h \<Rightarrow> Inr (h w))
      else scheduleLoop rest scheduleId w)"

definition handleSchedule ::
  "string list \<Rightarrow> pb_ScheduleRequest \<Rightarrow> ('w, 'j) Plugin \<Rightarrow> 'w \<Rightarrow>
   fault + (PluginMessage \<times> ('w, 'j) Plugin \<times> 'w)" where
  "handleSchedule order req p w =
     (case scheduleLoop (rangeMap order (schedule p)) (pb_ScheduleRequest_ScheduleId req) w of
        Inl f \<Rightarrow> Inl f
      | Inr w' \<Rightarrow> Inr (reply PluginMessage_ScheduleResponse, p, w'))"

text \<open>\<open>handleMixin\<close>: the loop leaves \<open>handler\<close> nil or sets it from the first registration
  of the target.\<close>

fun findMixin :: "('w, 'j) MixinRegistration list \<Rightarrow> string \<Rightarrow> ('w, 'j) MixinHandler" where
  "findMixin [] target = None"
| "findMixin (m # ms) target =
     (if MixinRegistration_Target m = target then MixinRegistration_Handler m
      else findMixin ms target)"

text \<open>The rest of \<open>handleMixin\<close>, from the test \<open>handler == nil\<close> on.\<close>

definition callMixin ::
  "'j JSON \<Rightarrow> ('w, 'j) MixinHandler \<Rightarrow> pb_MixinRequest \<Rightarrow> ('w, 'j) Plugin \<Rightarrow> 'w \<Rightarrow>
   fault + (PluginMessage \<times> ('w, 'j) Plugin \<times> 'w)" where
  "callMixin J handler req p w =
     (case handler of
        None \<Rightarrow>
          Inr (reply (PluginMessage_MixinResponse
                 \<lparr>pb_MixinResponse_Action = MixinResponse_NEXT, pb_MixinResponse_Output = [],
                  pb_MixinResponse_Error = [], pb_MixinResponse_ModifiedInput = [],
                  pb_MixinResponse_Notifications = []\<rparr>), p, w)
      | Some h \<Rightarrow>
          (let input = Unmarshal J (pb_MixinRequest_Input req);
               chainData = (if length (pb_MixinRequest_ChainData req) > 0
                            then Unmarshal J (pb_MixinRequest_ChainData req) else None);
               mctx = \<lparr>MixinContext_Target = pb_MixinRequest_Target req,
                       MixinContext_RequestID = pb_MixinRequest_RequestId req,
                       MixinContext_input = input, MixinContext_chainData = chainData\<rparr>;
               (result, w') = h mctx w;
               resp = \<lparr>pb_MixinResponse_Action = MixinResult_action result,
                       pb_MixinResponse_Output =
                         (case MixinResult_output result of None \<Rightarrow> [] | Some d \<Rightarrow> Marshal J d),
                       pb_MixinResponse_Error =
                         (if MixinResult_err result \<noteq> [] then MixinResult_err result else []),
                       pb_MixinResponse_ModifiedInput =
                         (case MixinResult_modifiedInput result of
                            None \<Rightarrow> [] | Some d \<Rightarrow> Marshal J d),
                       pb_MixinResponse_Notifications =
                         map (\<lambda>n. \<lparr>pb_Notification_Title = Notification_Title n,
                                   pb_Notification_Message = Notification_Message n,
                                   pb_Notification_Type = Notification_Type n\<rparr>)
                           (MixinResult_notifications result)\<rparr>
           in Inr (reply (PluginMessage_MixinResponse resp), p, w')))"

definition handleMixin ::
  "'j JSON \<Rightarrow> pb_MixinRequest \<Rightarrow> ('w, 'j) Plugin \<Rightarrow> 'w \<Rightarrow>
   fault + (PluginMessage \<times> ('w, 'j) Plugin \<times> 'w)" where
  "handleMixin J req p w =
     callMixin J (findMixin (mixins p) (pb_MixinRequest_Target req)) req p w"

definition handleAddonType ::
  "pb_AddonTypeRequest \<Rightarrow> ('w, 'j) Plugin \<Rightarrow> 'w \<Rightarrow>
   fault + (PluginMessage \<times> ('w, 'j) Plugin \<times> 'w)" where
  "handleAddonType req p w =
     (case addonTypes p (pb_AddonTypeRequest_TypeId req) of
        None \<Rightarrow>
          Inr (reply (PluginMessage_AddonTypeResponse
                 \<lparr>pb_AddonTypeResponse_Success = False,
                  pb_AddonTypeResponse_Error = ''addon type handler not found'',
                  pb_AddonTypeResponse_Message = [], pb_AddonTypeResponse_Actions = []\<rparr>), p, w)
      | Some handler \<Rightarrow>
          (let addonReq =
                 \<lparr>AddonTypeRequest_TypeID = pb_AddonTypeRequest_TypeId req,
                  AddonTypeRequest_ServerID = pb_AddonTypeRequest_ServerId req,
                  AddonTypeRequest_NodeID = pb_AddonTypeRequest_NodeId req,
                  AddonTypeRequest_DownloadURL = pb_AddonTypeRequest_DownloadUrl req,
                  AddonTypeRequest_FileName = pb_AddonTypeRequest_FileName req,
                  AddonTypeRequest_InstallPath = pb_AddonTypeRequest_InstallPath req,
                  AddonTypeRequest_SourceInfo = pb_AddonTypeRequest_SourceInfo req,
                  AddonTypeRequest_ServerVariables = pb_AddonTypeRequest_ServerVariables req\<rparr>
           in case handler of
                None \<Rightarrow> Inl Panic
              | Some h \<Rightarrow>
                  (let (result, w') = h addonReq w;
                       resp =
                         \<lparr>pb_AddonTypeResponse_Success = AddonTypeResponse_Success result,
                          pb_AddonTypeResponse_Error = AddonTypeResponse_Error result,
                          pb_AddonTypeResponse_Message = AddonTypeResponse_Message result,
                          pb_AddonTypeResponse_Actions =
                            map (\<lambda>action.
                                  \<lparr>pb_AddonInstallAction_Type = AddonInstallAction_Type action,
                                   pb_AddonInstallAction_Url = AddonInstallAction_URL action,
                                   pb_AddonInstallAction_Path = AddonInstallAction_Path action,
                                   pb_AddonInstallAction_Content = AddonInstallAction_Content action,
                                   pb_AddonInstallAction_Command = AddonInstallAction_Command action,
                                   pb_AddonInstallAction_Headers = AddonInstallAction_Headers action,
                                   pb_AddonInstallAction_NodePayload =
                                     AddonInstallAction_NodePayload action,
                                   pb_AddonInstallAction_NodeEndpoint =
                                     AddonInstallAction_NodeEndpoint action\<rparr>)
                              (AddonTypeResponse_Actions result)\<rparr>
                   in Inr (reply (PluginMessage_AddonTypeResponse resp), p, w'))))"

text \<open>
  \<open>handleMessage\<close> returns the envelopes it hands to \<open>stream.Send\<close> (none or one, with the
  request id of the inbound envelope; the result of \<open>Send\<close> is not looked at).
\<close>

definition respond ::
  "PanelMessage \<Rightarrow> fault + (PluginMessage \<times> ('w, 'j) Plugin \<times> 'w) \<Rightarrow>
   fault + (PluginMessage list \<times> ('w, 'j) Plugin \<times> 'w)" where
  "respond msg r =
     (case r of
        Inl f \<Rightarrow> Inl f
      | Inr (resp, p, w) \<Rightarrow>
          Inr ([resp\<lparr>PluginMessage_RequestId := PanelMessage_RequestId msg\<rparr>], p, w))"

definition handleMessage ::
  "'j JSON \<Rightarrow> string list \<Rightarrow> PanelMessage \<Rightarrow> ('w, 'j) Plugin \<Rightarrow> 'w \<Rightarrow>
   fault + (PluginMessage list \<times> ('w, 'j) Plugin \<times> 'w)" where
  "handleMessage J order msg p w =
     (case PanelMessage_Payload msg of
        PanelMessage_Event ev \<Rightarrow> respond msg (handleEvent ev p w)
      | PanelMessage_Http req \<Rightarrow> respond msg (handleHTTP J order req p w)
      | PanelMessage_Schedule req \<Rightarrow> respond msg (handleSchedule order req p w)
      | PanelMessage_Mixin req \<Rightarrow> respond msg (handleMixin J req p w)
      | PanelMessage_AddonType req \<Rightarrow> respond msg (handleAddonType req p w)
      | PanelMessage_Shutdown \<Rightarrow> Inl (Exit 0)
      | _ \<Rightarrow> Inr ([], p, w))"

section \<open>The connection\<close>

text \<open>
  What the process and the transport give \<open>Start\<close>: the arguments of the process,
  \<open>filepath.Join\<close>, whether \<open>grpc.NewClient\<close>, \<open>Connect\<close> and the \<open>Send\<close> of the
  registration fail, and what the successive calls of \<open>stream.Recv\<close> return, each with
  the order in which the dispatch of that envelope traverses a map. When that list is
  used up, \<open>Recv\<close> does not return. \<open>os.MkdirAll\<close> and \<open>log.Printf\<close> act on nothing
  modelled here (a failure to create the data directory is only logged). The file system
  is the map of its files (below); directories and permissions are not modelled, and
  whether \<open>os.WriteFile\<close> fails on a path is given by \<open>WriteFile_err\<close>.
\<close>

datatype error = io_EOF | stream_error string | os_ErrNotExist | os_error string | json_error string

record env =
  os_Args :: "string list"
  filepath_Join :: "string \<Rightarrow> string \<Rightarrow> string"
  NewClient_err :: "error option"
  Connect_err :: "error option"
  Send_err :: "error option"
  Recv :: "((error + PanelMessage) \<times> string list) list"
  WriteFile_err :: "string \<Rightarrow> error option"

text \<open>
  How \<open>Start\<close> ends: it returns an error or nil, the process exits, a panic unwinds it,
  or it waits in \<open>Recv\<close> for ever.
\<close>

datatype ending = Returned "error option" | Exited int | Panicked | Waiting

record ('w, 'j) run =
  run_end :: ending
  run_plugin :: "('w, 'j) Plugin"
  run_world :: 'w
  run_addr :: string
  run_sent :: "PluginMessage list"
  run_logged :: "string list"

definition routeInfo :: "('w, 'j) RouteConfig \<Rightarrow> pb_RouteInfo" where
  "routeInfo cfg =
     \<lparr>pb_RouteInfo_Method = RouteConfig_Method cfg, pb_RouteInfo_Path = RouteConfig_Path cfg,
      pb_RouteInfo_RateLimit =
        (if RouteConfig_RateLimitPreset cfg \<noteq> [] \<or> RouteConfig_RateLimitRPM cfg > 0
         then Some \<lparr>pb_RateLimitConfig_Preset = RouteConfig_RateLimitPreset cfg,
                    pb_RateLimitConfig_RequestsPerMinute =
                      word_of_int (RouteConfig_RateLimitRPM cfg),
                    pb_RateLimitConfig_BurstLimit =
                      word_of_int (RouteConfig_RateLimitBurst cfg)\<rparr>
         else None)\<rparr>"

definition buildInfo :: "('w, 'j) Plugin \<Rightarrow> pb_PluginInfo" where
  "buildInfo p =
     \<lparr>pb_PluginInfo_Id = plugin_id p, pb_PluginInfo_Name = name p,
      pb_PluginInfo_Version = version p,
      pb_PluginInfo_Events = dom (events p),
      pb_PluginInfo_Routes = routeInfo ` ran (routes p),
      pb_PluginInfo_Schedules =
        (\<lambda>key. let (i, cron) = splitKey key
               in \<lparr>pb_ScheduleInfo_Id = i, pb_ScheduleInfo_Cron = cron\<rparr>) ` dom (schedule p),
      pb_PluginInfo_Mixins =
        map (\<lambda>m. \<lparr>pb_MixinInfo_Target = MixinRegistration_Target m,
                  pb_MixinInfo_Priority = word_of_int (MixinRegistration_Priority m)\<rparr>)
          (mixins p),
      pb_PluginInfo_AddonTypes = dom (addonTypes p)\<rparr>"

text \<open>The receive loop of \<open>Start\<close>.\<close>

fun recvLoop ::
  "'j JSON \<Rightarrow> ((error + PanelMessage) \<times> string list) list \<Rightarrow> ('w, 'j) run \<Rightarrow> ('w, 'j) run" where
  "recvLoop J [] r = r\<lparr>run_end := Waiting\<rparr>"
| "recvLoop J ((Inl err, order) # rest) r =
     (if err = io_EOF then r\<lparr>run_end := Returned None\<rparr>
      else r\<lparr>run_end := Returned (Some err)\<rparr>)"
| "recvLoop J ((Inr msg, order) # rest) r =
     (case handleMessage J order msg (run_plugin r) (run_world r) of
        Inl Panic \<Rightarrow> r\<lparr>run_end := Panicked\<rparr>
      | Inl (Exit n) \<Rightarrow> r\<lparr>run_end := Exited n\<rparr>
      | Inr (out, p', w') \<Rightarrow>
          recvLoop J rest
            (r\<lparr>run_plugin := p', run_world := w', run_sent := run_sent r @ out\<rparr>))"

definition Start ::
  "'j JSON \<Rightarrow> env \<Rightarrow> string \<Rightarrow> ('w, 'j) Plugin \<Rightarrow> 'w \<Rightarrow> ('w, 'j) run" where
  "Start J e panelAddr p w =
     (let panelAddr = (if length (os_Args e) > 1 then os_Args e ! 1 else panelAddr);
          p = p\<lparr>dataDir :=
                 (if length (os_Args e) > 2
                  then filepath_Join e (os_Args e ! 2) (plugin_id p @ ''_data'')
                  else plugin_id p @ ''_data'')\<rparr>;
          r = \<lparr>run_end = Waiting, run_plugin = p, run_world = w, run_addr = panelAddr,
               run_sent = [], run_logged = []\<rparr>
      in case NewClient_err e of
           Some err \<Rightarrow> r\<lparr>run_end := Returned (Some err)\<rparr>
         | None \<Rightarrow>
        (case Connect_err e of
           Some err \<Rightarrow> r\<lparr>run_end := Returned (Some err)\<rparr>
         | None \<Rightarrow>
        (let info = buildInfo p in
         case Send_err e of
           Some err \<Rightarrow> r\<lparr>run_end := Returned (Some err)\<rparr>
         | None \<Rightarrow>
        (let r = r\<lparr>run_sent := [reply (PluginMessage_Register info)]\<rparr> in
         case Recv e of
           [] \<Rightarrow> r
         | (Inl err, order) # rest \<Rightarrow> r\<lparr>run_end := Returned (Some err)\<rparr>
         | (Inr msg, order) # rest \<Rightarrow>
             (let err = (None :: error option) in
              if PanelMessage_Payload msg \<noteq> PanelMessage_Registered
              then r\<lparr>run_end := Returned err\<rparr>
              else
                (let r = (case onStart p of
                            None \<Rightarrow> r
                          | Some f \<Rightarrow> r\<lparr>run_world := f (run_world r)\<rparr>);
                     r = r\<lparr>run_logged := [name p @ '' v'' @ version p @ '' started'']\<rparr>
                 in recvLoop J rest r))))))"

section \<open>The configuration file\<close>








section \<open>Registration sequences\<close>

text \<open>
  The plugins that the builder makes: \<open>New\<close>, then any calls of the registration
  methods. \<open>RateLimit\<close> and \<open>RateLimitPreset\<close> write through the pointer that \<open>Route\<close>
  returned; they change the plugin where that configuration is still in the table.
\<close>

inductive built :: "('w, 'j) Plugin \<Rightarrow> bool" where
  built_New: "built (New i v)"
| built_SetName: "built p \<Longrightarrow> built (SetName n p)"
| built_UseDataDir: "built p \<Longrightarrow> built (UseDataDir p)"
| built_OnStart: "built p \<Longrightarrow> built (OnStart fn p)"
| built_OnEvent: "built p \<Longrightarrow> built (OnEvent eventType eh p)"
| built_Route: "built p \<Longrightarrow> built (Route method path rh p)"
| built_RateLimit:
    "built p \<Longrightarrow> routes p k = Some cfg \<Longrightarrow>
     built (p\<lparr>routes := (routes p)(k \<mapsto> cfg\<lparr>RouteConfig_RateLimitRPM := requestsPerMinute,
                                              RouteConfig_RateLimitBurst := burstLimit\<rparr>)\<rparr>)"
| built_RateLimitPreset:
    "built p \<Longrightarrow> routes p k = Some cfg \<Longrightarrow>
     built (p\<lparr>routes := (routes p)(k \<mapsto> cfg\<lparr>RouteConfig_RateLimitPreset := preset\<rparr>)\<rparr>)"
| built_Schedule: "built p \<Longrightarrow> built (Schedule i cron sh p)"
| built_MixinWithPriority: "built p \<Longrightarrow> built (MixinWithPriority target priority mh p)"
| built_AddonType: "built p \<Longrightarrow> built (AddonType typeID nm description ah p)"

text \<open>A sequence of calls of \<open>MixinWithPriority\<close>, in the order of the list.\<close>

fun addMixins ::
  "(string \<times> int \<times> ('w, 'j) MixinHandler) list \<Rightarrow> ('w, 'j) Plugin \<Rightarrow> ('w, 'j) Plugin" where
  "addMixins [] p = p"
| "addMixins ((target, priority, handler) # regs) p =
     addMixins regs (MixinWithPriority target priority handler p)"

section \<open>Example plugins\<close>

text \<open>
  Handlers for the examples. Their state is the list of the handlers that ran, each
  adding its tag at the end; there are no JSON documents (\<open>'j\<close> is \<open>unit\<close>).
\<close>

definition noJSON :: "unit JSON" where
  "noJSON = \<lparr>Unmarshal = (\<lambda>b. None), Marshal = (\<lambda>d. [])\<rparr>"

definition tagRoute :: "string \<Rightarrow> (string list, unit) RouteHandler" where
  "tagRoute tag =
     Some (\<lambda>req w. (\<lparr>Response_Status = 200, Response_Headers = Map.empty,
                      Response_body = tag\<rparr>, w @ [tag]))"

definition tagSchedule :: "string \<Rightarrow> string list ScheduleHandler" where
  "tagSchedule tag = Some (\<lambda>w. w @ [tag])"

definition tagMixin :: "string \<Rightarrow> (string list, unit) MixinHandler" where
  "tagMixin tag =
     Some (\<lambda>mctx w. (\<lparr>MixinResult_action = MixinResponse_NEXT, MixinResult_output = None,
                       MixinResult_err = tag, MixinResult_modifiedInput = None,
                       MixinResult_notifications = []\<rparr>, w @ [tag]))"

definition emptyPlugin :: "(string list, unit) Plugin" where
  "emptyPlugin = New ''demo'' ''1.0''"

text \<open>The registry of the spec's end-to-end scenario: \<open>POST /items\<close> and \<open>GET /items/*\<close>.\<close>

definition itemsPlugin :: "(string list, unit) Plugin" where
  "itemsPlugin =
     Route ''GET'' ''/items/*'' (tagRoute ''list'')
       (Route ''POST'' ''/items'' (tagRoute ''create'') emptyPlugin)"

text \<open>Two wildcard routes that both match \<open>GET /items/42\<close>, registered in this order.\<close>

definition wildPlugin :: "(string list, unit) Plugin" where
  "wildPlugin =
     Route ''*'' ''/items/*'' (tagRoute ''second'')
       (Route ''GET'' ''/items/*'' (tagRoute ''first'') emptyPlugin)"

text \<open>An exact route beside a wildcard route that covers it.\<close>

definition overlapPlugin :: "(string list, unit) Plugin" where
  "overlapPlugin =
     Route ''POST'' ''/items'' (tagRoute ''create'')
       (Route ''*'' ''/*'' (tagRoute ''any'') emptyPlugin)"

text \<open>A job \<open>a\<close> and a job whose id \<open>a:b\<close> has a colon.\<close>

definition jobsPlugin :: "(string list, unit) Plugin" where
  "jobsPlugin =
     Schedule ''a:b'' ''@daily'' (tagSchedule ''a:b'')
       (Schedule ''a'' ''@hourly'' (tagSchedule ''a'') emptyPlugin)"

text \<open>The two jobs and a third, \<open>backup\<close>.\<close>

definition threeJobsPlugin :: "(string list, unit) Plugin" where
  "threeJobsPlugin =
     Schedule ''backup'' ''0 3 * * *'' (tagSchedule ''backup'') jobsPlugin"

text \<open>A plugin with one outbound call registered in the correlation table.\<close>

definition openChan :: chan where
  "openChan = \<lparr>chan_queue = [], chan_closed = False\<rparr>"

definition callingPlugin :: "(string list, unit) Plugin" where
  "callingPlugin = registerPending ''call-1'' emptyPlugin"

definition httpRequest :: "string \<Rightarrow> string \<Rightarrow> pb_HTTPRequest" where
  "httpRequest method path =
     \<lparr>pb_HTTPRequest_Method = method, pb_HTTPRequest_Path = path,
      pb_HTTPRequest_Headers = Map.empty, pb_HTTPRequest_Query = Map.empty,
      pb_HTTPRequest_Body = [], pb_HTTPRequest_UserId = []\<rparr>"

definition panelMessage :: "string \<Rightarrow> PanelPayload \<Rightarrow> PanelMessage" where
  "panelMessage rid pl = \<lparr>PanelMessage_RequestId = rid, PanelMessage_Payload = pl\<rparr>"

text \<open>
  \<open>filepath.Join\<close> of two elements that need no cleaning (no separator, no dot
  element): an empty element is left out.
\<close>

definition joinPath :: "string \<Rightarrow> string \<Rightarrow> string" where
  "joinPath a b = (if a = [] then b else if b = [] then a else a @ ''/'' @ b)"

text \<open>
  A transport on which everything succeeds, no write fails, and \<open>Recv\<close> returns the given
  results, each with the traversal order for its dispatch.
\<close>

definition transport :: "((error + PanelMessage) \<times> string list) list \<Rightarrow> env" where
  "transport rs =
     \<lparr>os_Args = [''plugin''], filepath_Join = joinPath, NewClient_err = None,
      Connect_err = None, Send_err = None, Recv = rs, WriteFile_err = (\<lambda>path. None)\<rparr>"


section \<open>The route matcher\<close>

lemma matchPath_wildcard:
  "matchPath (pre @ ''*'') path \<longleftrightarrow>
     pre @ ''*'' = path \<or> (length pre \<le> length path \<and> take (length pre) path = pre)"
  by (simp add: matchPath_def nth_append)

lemma matchPath_no_wildcard:
  assumes "pattern = [] \<or> last pattern \<noteq> CHR ''*''"
  shows "matchPath pattern path \<longleftrightarrow> pattern = path"
  using assms by (auto simp: matchPath_def last_conv_nth)

text \<open>
  Claim C6. A pattern equal to the path matches; a pattern \<open>pre*\<close> also matches exactly
  the paths that are at least as long as \<open>pre\<close> and start with it; nothing else matches.
  The pattern \<open>/api/*\<close> matches \<open>/api/\<close>, \<open>/api/x\<close> and \<open>/api/x/y\<close> and does not
  match \<open>/ap\<close>.
\<close>

theorem matchPath_spec:
  "(matchPath pattern path \<longleftrightarrow>
      pattern = path \<or>
      (\<exists>pre. pattern = pre @ ''*'' \<and> length pre \<le> length path \<and> take (length pre) path = pre))
   \<and> matchPath ''/api/*'' ''/api/''
   \<and> matchPath ''/api/*'' ''/api/x''
   \<and> matchPath ''/api/*'' ''/api/x/y''
   \<and> \<not> matchPath ''/api/*'' ''/ap''"
proof -
  have general: "matchPath pattern path \<longleftrightarrow>
      pattern = path \<or>
      (\<exists>pre. pattern = pre @ ''*'' \<and> length pre \<le> length path \<and> take (length pre) path = pre)"
  proof (cases "pattern \<noteq> [] \<and> last pattern = CHR ''*''")
    case True
    then have pat: "pattern = butlast pattern @ ''*''"
      by (metis append_butlast_last_id)
    have "matchPath (butlast pattern @ ''*'') path \<longleftrightarrow>
        butlast pattern @ ''*'' = path \<or>
        (length (butlast pattern) \<le> length path \<and>
         take (length (butlast pattern)) path = butlast pattern)"
      by (rule matchPath_wildcard)
    with pat show ?thesis
      by (metis append_same_eq)
  next
    case False
    then have "matchPath pattern path \<longleftrightarrow> pattern = path"
      by (intro matchPath_no_wildcard) auto
    moreover from False have "\<And>pre. pattern \<noteq> pre @ ''*''"
      by auto
    ultimately show ?thesis
      by blast
  qed
  have "matchPath ''/api/*'' ''/api/''" "matchPath ''/api/*'' ''/api/x''"
    "matchPath ''/api/*'' ''/api/x/y''" "\<not> matchPath ''/api/*'' ''/ap''"
    by (simp_all add: matchPath_def)
  with general show ?thesis
    by blast
qed

section \<open>Facts about the traversal of a map and the scan\<close>

lemma rangeMap_Nil [simp]: "rangeMap [] m = []"
  by (simp add: rangeMap_def)

lemma rangeMap_Cons [simp]:
  "rangeMap (k # ks) m = (case m k of None \<Rightarrow> rangeMap ks m | Some v \<Rightarrow> (k, v) # rangeMap ks m)"
  by (simp add: rangeMap_def split: option.split)

lemma rangeMap_set: "(k, v) \<in> set (rangeMap order m) \<longleftrightarrow> k \<in> set order \<and> m k = Some v"
  by (induction order) (auto split: option.splits)

lemma rangeMap_set_iff: "rangeOrder m order \<Longrightarrow> (k, v) \<in> set (rangeMap order m) \<longleftrightarrow> m k = Some v"
  by (auto simp: rangeMap_set rangeOrder_def)

lemma rangeMap_keys: "set order \<subseteq> dom m \<Longrightarrow> map fst (rangeMap order m) = order"
  by (induction order) (auto split: option.splits)

lemma scanRoutes_None: "scanRoutes xs req = None \<longleftrightarrow> (\<forall>(k, c) \<in> set xs. \<not> routeMatches c req)"
  by (induction xs req rule: scanRoutes.induct) auto

lemma scanRoutes_find: "scanRoutes xs req = map_option snd (List.find (\<lambda>(k, c). routeMatches c req) xs)"
  by (induction xs req rule: scanRoutes.induct) auto

lemma scanRoutes_Some: "scanRoutes xs req = Some c \<Longrightarrow> (\<exists>k. (k, c) \<in> set xs) \<and> routeMatches c req"
  by (induction xs req rule: scanRoutes.induct) (auto split: if_splits)

lemma built_routes_keyed:
  "built p \<Longrightarrow> routes p k = Some cfg \<Longrightarrow> k = RouteConfig_Method cfg @ '':'' @ RouteConfig_Path cfg"
  by (induction p arbitrary: k cfg rule: built.induct)
    (auto simp: New_def SetName_def UseDataDir_def OnStart_def OnEvent_def Route_def Let_def
       Schedule_def MixinWithPriority_def AddonType_def split: if_splits)

lemma errorResponse_body:
  \<open>json_Marshal [(''success'', JBool False), (''error'', JString ''not found'')] =
     ''{"error":"not found","success":false}''\<close>
  by (simp add: json_Marshal_def jsonString_def jsonEscape_def)

section \<open>Requests that no route matches\<close>

text \<open>
  Claim C2, amended. For every inbound HTTP request whose method and path match no
  registered route, neither exactly nor in the wildcard scan, \<open>handleHTTP\<close> answers with
  status 404, the content type \<open>application/json\<close> and the body
  \<open>{"error":"not found","success":false}\<close>: the members the claim names, with the keys in
  sorted order, as the standard library writes a map. The plugin and the handlers' state
  are unchanged.
\<close>

theorem handleHTTP_not_found:
  assumes "routes p (pb_HTTPRequest_Method req @ '':'' @ pb_HTTPRequest_Path req) = None"
    and "\<forall>c \<in> ran (routes p). \<not> routeMatches c req"
  shows \<open>handleHTTP J order req p w =
     Inr (\<lparr>PluginMessage_RequestId = [],
           PluginMessage_Payload = PluginMessage_HttpResponse
             \<lparr>pb_HTTPResponse_Status = 404,
              pb_HTTPResponse_Headers = [''Content-Type'' \<mapsto> ''application/json''],
              pb_HTTPResponse_Body = ''{"error":"not found","success":false}''\<rparr>\<rparr>, p, w)\<close>
proof -
  have "scanRoutes (rangeMap order (routes p)) req = None"
    unfolding scanRoutes_None using assms(2) by (fastforce simp: ran_def rangeMap_set)
  with assms(1) have "resolveRoute order p req = None"
    by (simp add: resolveRoute_def)
  then show ?thesis
    by (simp add: handleHTTP_def errorResponse_def reply_def errorResponse_body)
qed

text \<open>The theorem at the spec's scenario: \<open>DELETE /items\<close> on the registry of
  \<open>POST /items\<close> and \<open>GET /items/*\<close>.\<close>

theorem handleHTTP_not_found_witness:
  \<open>handleHTTP noJSON [''POST:/items'', ''GET:/items/*''] (httpRequest ''DELETE'' ''/items'')
       itemsPlugin [] =
     Inr (\<lparr>PluginMessage_RequestId = [],
           PluginMessage_Payload = PluginMessage_HttpResponse
             \<lparr>pb_HTTPResponse_Status = 404,
              pb_HTTPResponse_Headers = [''Content-Type'' \<mapsto> ''application/json''],
              pb_HTTPResponse_Body = ''{"error":"not found","success":false}''\<rparr>\<rparr>,
          itemsPlugin, [])\<close>
proof -
  have k: "routes itemsPlugin
      (pb_HTTPRequest_Method (httpRequest ''DELETE'' ''/items'') @ '':'' @
       pb_HTTPRequest_Path (httpRequest ''DELETE'' ''/items'')) = None"
    by (simp add: itemsPlugin_def emptyPlugin_def Route_def New_def httpRequest_def)
  have "ran (routes itemsPlugin) =
      {\<lparr>RouteConfig_Method = ''GET'', RouteConfig_Path = ''/items/*'',
        RouteConfig_Handler = tagRoute ''list'', RouteConfig_RateLimitPreset = [],
        RouteConfig_RateLimitRPM = 0, RouteConfig_RateLimitBurst = 0\<rparr>,
       \<lparr>RouteConfig_Method = ''POST'', RouteConfig_Path = ''/items'',
        RouteConfig_Handler = tagRoute ''create'', RouteConfig_RateLimitPreset = [],
        RouteConfig_RateLimitRPM = 0, RouteConfig_RateLimitBurst = 0\<rparr>}"
    by (simp add: itemsPlugin_def emptyPlugin_def Route_def New_def)
  then have n: "\<forall>c \<in> ran (routes itemsPlugin). \<not> routeMatches c (httpRequest ''DELETE'' ''/items'')"
    by (simp add: routeMatches_def matchPath_def httpRequest_def)
  from handleHTTP_not_found [OF k n] show ?thesis .
qed

text \<open>
  The claim as stated fails there: the body is not the byte string
  \<open>{"success":false,"error":"not found"}\<close>.
\<close>

theorem handleHTTP_not_found_counterexample:
  \<open>handleHTTP noJSON [''POST:/items'', ''GET:/items/*''] (httpRequest ''DELETE'' ''/items'')
       itemsPlugin [] =
     Inr (\<lparr>PluginMessage_RequestId = [],
           PluginMessage_Payload = PluginMessage_HttpResponse
             \<lparr>pb_HTTPResponse_Status = 404,
              pb_HTTPResponse_Headers = [''Content-Type'' \<mapsto> ''application/json''],
              pb_HTTPResponse_Body = ''{"error":"not found","success":false}''\<rparr>\<rparr>,
          itemsPlugin, [])
   \<and> ''{"error":"not found","success":false}'' \<noteq> ''{"success":false,"error":"not found"}''\<close>
  by (simp add: handleHTTP_def resolveRoute_def itemsPlugin_def emptyPlugin_def Route_def
      New_def httpRequest_def routeMatches_def matchPath_def errorResponse_def reply_def
      errorResponse_body)

section \<open>The wildcard scan\<close>

text \<open>
  Claim C4, amended. For every inbound HTTP request with no exact method+path match, the
  router scans the registered routes in the order in which the traversal of the routes
  map yields them (an order Go leaves open, not the registration order) and selects the
  first route in that order whose method is \<open>*\<close> or equals the request method and whose
  path pattern matches. The route selected is a registered route that matches; none is
  selected exactly when no registered route matches; and the selection is determined by
  the registry and the request when exactly one registered route matches.
\<close>

theorem resolveRoute_scan:
  assumes "routes p (pb_HTTPRequest_Method req @ '':'' @ pb_HTTPRequest_Path req) = None"
    and "rangeOrder (routes p) order"
  shows "resolveRoute order p req =
           map_option snd (List.find (\<lambda>(k, c). routeMatches c req) (rangeMap order (routes p)))
     \<and> map fst (rangeMap order (routes p)) = order
     \<and> (\<forall>c. resolveRoute order p req = Some c \<longrightarrow> c \<in> ran (routes p) \<and> routeMatches c req)
     \<and> (resolveRoute order p req = None \<longleftrightarrow> (\<forall>c \<in> ran (routes p). \<not> routeMatches c req))
     \<and> (\<forall>c \<in> ran (routes p).
           routeMatches c req \<and> (\<forall>c' \<in> ran (routes p). routeMatches c' req \<longrightarrow> c' = c) \<longrightarrow>
           resolveRoute order p req = Some c)"
proof -
  let ?xs = "rangeMap order (routes p)"
  have res: "resolveRoute order p req = scanRoutes ?xs req"
    using assms(1) by (simp add: resolveRoute_def)
  have mem: "\<And>c. (\<exists>k. (k, c) \<in> set ?xs) \<longleftrightarrow> c \<in> ran (routes p)"
    using rangeMap_set_iff [OF assms(2)] by (auto simp: ran_def)
  have first: "resolveRoute order p req = map_option snd (List.find (\<lambda>(k, c). routeMatches c req) ?xs)"
    using res by (simp add: scanRoutes_find)
  have keys: "map fst ?xs = order"
    using assms(2) by (intro rangeMap_keys) (simp add: rangeOrder_def)
  have sound: "\<forall>c. resolveRoute order p req = Some c \<longrightarrow> c \<in> ran (routes p) \<and> routeMatches c req"
    using res scanRoutes_Some mem by metis
  have none: "resolveRoute order p req = None \<longleftrightarrow> (\<forall>c \<in> ran (routes p). \<not> routeMatches c req)"
  proof -
    have "scanRoutes ?xs req = None \<longleftrightarrow> (\<forall>c. (\<exists>k. (k, c) \<in> set ?xs) \<longrightarrow> \<not> routeMatches c req)"
      unfolding scanRoutes_None by auto
    then show ?thesis
      using res mem by auto
  qed
  have unique: "\<forall>c \<in> ran (routes p).
      routeMatches c req \<and> (\<forall>c' \<in> ran (routes p). routeMatches c' req \<longrightarrow> c' = c) \<longrightarrow>
      resolveRoute order p req = Some c"
  proof (intro ballI impI)
    fix c
    assume c: "c \<in> ran (routes p)"
      and u: "routeMatches c req \<and> (\<forall>c' \<in> ran (routes p). routeMatches c' req \<longrightarrow> c' = c)"
    from c u none have "resolveRoute order p req \<noteq> None"
      by blast
    then obtain d where d: "resolveRoute order p req = Some d"
      by blast
    with sound have "d \<in> ran (routes p)" "routeMatches d req"
      by blast+
    with u have "d = c"
      by blast
    with d show "resolveRoute order p req = Some c"
      by simp
  qed
  from first keys sound none unique show ?thesis
    by blast
qed

theorem resolveRoute_scan_witness:
  "resolveRoute [''*:/items/*'', ''GET:/items/*''] wildPlugin (httpRequest ''GET'' ''/items/42'') =
     map_option snd (List.find (\<lambda>(k, c). routeMatches c (httpRequest ''GET'' ''/items/42''))
       (rangeMap [''*:/items/*'', ''GET:/items/*''] (routes wildPlugin)))"
proof -
  have k: "routes wildPlugin
      (pb_HTTPRequest_Method (httpRequest ''GET'' ''/items/42'') @ '':'' @
       pb_HTTPRequest_Path (httpRequest ''GET'' ''/items/42'')) = None"
    by (simp add: wildPlugin_def emptyPlugin_def Route_def New_def httpRequest_def)
  have o: "rangeOrder (routes wildPlugin) [''*:/items/*'', ''GET:/items/*'']"
    by (auto simp add: rangeOrder_def wildPlugin_def emptyPlugin_def Route_def New_def)
  from resolveRoute_scan [OF k o] show ?thesis
    by blast
qed

text \<open>
  The claim as stated fails: with \<open>GET /items/*\<close> registered first and \<open>* /items/*\<close>
  second, a traversal that meets the second key first selects the route registered second,
  and two traversals of the same registry select different routes for the same request.
\<close>

theorem wildcard_order_counterexample:
  "rangeOrder (routes wildPlugin) [''*:/items/*'', ''GET:/items/*'']
   \<and> rangeOrder (routes wildPlugin) [''GET:/items/*'', ''*:/items/*'']
   \<and> routes wildPlugin ''GET:/items/42'' = None
   \<and> map_option RouteConfig_Method
        (resolveRoute [''*:/items/*'', ''GET:/items/*''] wildPlugin (httpRequest ''GET'' ''/items/42''))
      = Some ''*''
   \<and> map_option RouteConfig_Method
        (resolveRoute [''GET:/items/*'', ''*:/items/*''] wildPlugin (httpRequest ''GET'' ''/items/42''))
      = Some ''GET''"
  by (auto simp add: rangeOrder_def wildPlugin_def emptyPlugin_def Route_def New_def
      resolveRoute_def httpRequest_def routeMatches_def matchPath_def)

section \<open>Exact routes\<close>

text \<open>
  Claim C5. For every route in the registry of a plugin made by the builder, an inbound
  HTTP call whose method and path equal the route's resolves to that route, and the
  response is the one made from the call of its handler, whatever else is registered and
  in whatever order the wildcard scan would run: the exact key is looked up first.
\<close>

theorem exact_route_first:
  assumes "built p" and "cfg \<in> ran (routes p)"
    and "pb_HTTPRequest_Method req = RouteConfig_Method cfg"
    and "pb_HTTPRequest_Path req = RouteConfig_Path cfg"
  shows "resolveRoute order p req = Some cfg \<and>
         handleHTTP J order req p w = callRoute J cfg req p w"
proof -
  from assms(2) obtain k where k: "routes p k = Some cfg"
    by (auto simp: ran_def)
  with assms(1) have "k = RouteConfig_Method cfg @ '':'' @ RouteConfig_Path cfg"
    by (rule built_routes_keyed)
  with k assms(3,4) have "resolveRoute order p req = Some cfg"
    by (simp add: resolveRoute_def)
  then show ?thesis
    by (simp add: handleHTTP_def)
qed

theorem exact_route_first_witness:
  "resolveRoute [''*:/*'', ''POST:/items''] overlapPlugin (httpRequest ''POST'' ''/items'') =
     Some \<lparr>RouteConfig_Method = ''POST'', RouteConfig_Path = ''/items'',
           RouteConfig_Handler = tagRoute ''create'', RouteConfig_RateLimitPreset = [],
           RouteConfig_RateLimitRPM = 0, RouteConfig_RateLimitBurst = 0\<rparr>
   \<and> handleHTTP noJSON [''*:/*'', ''POST:/items''] (httpRequest ''POST'' ''/items'') overlapPlugin [] =
     Inr (\<lparr>PluginMessage_RequestId = [],
           PluginMessage_Payload = PluginMessage_HttpResponse
             \<lparr>pb_HTTPResponse_Status = 200, pb_HTTPResponse_Headers = Map.empty,
              pb_HTTPResponse_Body = ''create''\<rparr>\<rparr>, overlapPlugin, [''create''])"
proof -
  let ?cfg = "\<lparr>RouteConfig_Method = ''POST'', RouteConfig_Path = ''/items'',
           RouteConfig_Handler = tagRoute ''create'', RouteConfig_RateLimitPreset = [],
           RouteConfig_RateLimitRPM = 0, RouteConfig_RateLimitBurst = 0\<rparr>"
  have b: "built overlapPlugin"
    by (simp add: overlapPlugin_def emptyPlugin_def built.intros)
  have "routes overlapPlugin ''POST:/items'' = Some ?cfg"
    by (simp add: overlapPlugin_def emptyPlugin_def Route_def New_def)
  then have r: "?cfg \<in> ran (routes overlapPlugin)"
    by (rule ranI)
  have m: "pb_HTTPRequest_Method (httpRequest ''POST'' ''/items'') = RouteConfig_Method ?cfg"
    and pa: "pb_HTTPRequest_Path (httpRequest ''POST'' ''/items'') = RouteConfig_Path ?cfg"
    by (simp_all add: httpRequest_def)
  from exact_route_first [OF b r m pa, of "[''*:/*'', ''POST:/items'']" noJSON "[]"]
  show ?thesis
    by (simp add: callRoute_def tagRoute_def reply_def httpRequest_def noJSON_def)
qed

section \<open>Events without a handler\<close>

text \<open>
  Claim C8. For every inbound event whose type has no registered handler, \<open>handleEvent\<close>
  returns an event response that allows, with the empty message, and \<open>handleMessage\<close>
  sends it under the request id of the inbound envelope; the plugin (its handlers and
  everything else) and the handlers' state are unchanged.
\<close>

theorem handleEvent_unregistered:
  assumes "events p (pb_Event_Type ev) = None"
  shows "handleEvent ev p w =
           Inr (\<lparr>PluginMessage_RequestId = [],
                 PluginMessage_Payload = PluginMessage_EventResponse
                   \<lparr>pb_EventResponse_Allow = True, pb_EventResponse_Message = []\<rparr>\<rparr>, p, w)
     \<and> handleMessage J order
           \<lparr>PanelMessage_RequestId = rid, PanelMessage_Payload = PanelMessage_Event ev\<rparr> p w =
           Inr ([\<lparr>PluginMessage_RequestId = rid,
                  PluginMessage_Payload = PluginMessage_EventResponse
                    \<lparr>pb_EventResponse_Allow = True, pb_EventResponse_Message = []\<rparr>\<rparr>], p, w)"
  using assms by (simp add: handleEvent_def handleMessage_def respond_def reply_def)

theorem handleEvent_unregistered_witness:
  "handleEvent \<lparr>pb_Event_Type = ''server.start'', pb_Event_Data = Map.empty, pb_Event_Sync = True\<rparr>
     itemsPlugin [] =
     Inr (\<lparr>PluginMessage_RequestId = [],
           PluginMessage_Payload = PluginMessage_EventResponse
             \<lparr>pb_EventResponse_Allow = True, pb_EventResponse_Message = []\<rparr>\<rparr>, itemsPlugin, [])"
proof -
  have "events itemsPlugin
      (pb_Event_Type \<lparr>pb_Event_Type = ''server.start'', pb_Event_Data = Map.empty,
                      pb_Event_Sync = True\<rparr>) = None"
    by (simp add: itemsPlugin_def emptyPlugin_def Route_def New_def)
  from handleEvent_unregistered [OF this, of "[]" noJSON "[]" "[]"] show ?thesis
    by simp
qed

section \<open>Mixins\<close>

lemma mixins_addMixins:
  "mixins (addMixins regs p) =
     mixins p @ map (\<lambda>(t, pr, h). \<lparr>MixinRegistration_Target = t, MixinRegistration_Priority = pr,
                                    MixinRegistration_Handler = h\<rparr>) regs"
  by (induction regs p rule: addMixins.induct) (simp_all add: MixinWithPriority_def)

lemma findMixin_append_skip:
  "\<forall>m \<in> set xs. MixinRegistration_Target m \<noteq> target \<Longrightarrow>
   findMixin (xs @ ys) target = findMixin ys target"
  by (induction xs) simp_all

text \<open>
  Claim C7. When the handlers of a plugin are registered by any sequence of calls of
  \<open>MixinWithPriority\<close> (any targets, any priorities), a mixin call to a target selects
  the handler of the first registration of that target, and the dispatch is the call of
  that handler alone: the response and the state are the ones it leaves, whatever is
  registered for the target later.
\<close>

theorem first_mixin_only:
  assumes "regs = before @ (target, priority, handler) # after"
    and "\<forall>r \<in> set before. fst r \<noteq> target"
    and "pb_MixinRequest_Target req = target"
  shows "findMixin (mixins (addMixins regs (New i v))) target = handler \<and>
         handleMixin J req (addMixins regs (New i v)) w =
           callMixin J handler req (addMixins regs (New i v)) w"
proof -
  let ?reg = "\<lambda>(t, pr, h). \<lparr>MixinRegistration_Target = t, MixinRegistration_Priority = pr,
                              MixinRegistration_Handler = h\<rparr>"
  have "mixins (addMixins regs (New i v)) = map ?reg before @ ?reg (target, priority, handler) # map ?reg after"
    by (simp add: mixins_addMixins assms(1) New_def)
  moreover have "\<forall>m \<in> set (map ?reg before). MixinRegistration_Target m \<noteq> target"
    using assms(2) by auto
  ultimately have "findMixin (mixins (addMixins regs (New i v))) target = handler"
    by (simp add: findMixin_append_skip)
  then show ?thesis
    by (simp add: handleMixin_def assms(3))
qed

theorem first_mixin_only_witness:
  "handleMixin noJSON
     \<lparr>pb_MixinRequest_Target = ''server.create'', pb_MixinRequest_RequestId = ''7'',
      pb_MixinRequest_Input = [], pb_MixinRequest_ChainData = []\<rparr>
     (addMixins [(''other'', 3, tagMixin ''other''), (''server.create'', 1, tagMixin ''first''),
                 (''server.create'', 9, tagMixin ''second'')] (New ''demo'' ''1.0'')) [] =
   Inr (\<lparr>PluginMessage_RequestId = [],
         PluginMessage_Payload = PluginMessage_MixinResponse
           \<lparr>pb_MixinResponse_Action = MixinResponse_NEXT, pb_MixinResponse_Output = [],
            pb_MixinResponse_Error = ''first'', pb_MixinResponse_ModifiedInput = [],
            pb_MixinResponse_Notifications = []\<rparr>\<rparr>,
        addMixins [(''other'', 3, tagMixin ''other''), (''server.create'', 1, tagMixin ''first''),
                   (''server.create'', 9, tagMixin ''second'')] (New ''demo'' ''1.0''),
        [''first''])"
proof -
  let ?req = "\<lparr>pb_MixinRequest_Target = ''server.create'', pb_MixinRequest_RequestId = ''7'',
       pb_MixinRequest_Input = [], pb_MixinRequest_ChainData = []\<rparr>"
  let ?regs = "[(''other'', 3, tagMixin ''other''), (''server.create'', 1, tagMixin ''first''),
            (''server.create'', 9, tagMixin ''second'')]"
  have r: "?regs = [(''other'', 3, tagMixin ''other'')] @ (''server.create'', 1, tagMixin ''first'') #
           [(''server.create'', 9, tagMixin ''second'')]"
    by simp
  have b: "\<forall>r \<in> set [(''other'', 3 :: int, tagMixin ''other'')]. fst r \<noteq> ''server.create''"
    by simp
  have t: "pb_MixinRequest_Target ?req = ''server.create''"
    by simp
  have c: "callMixin noJSON (tagMixin ''first'') ?req q [] =
    Inr (\<lparr>PluginMessage_RequestId = [],
         PluginMessage_Payload = PluginMessage_MixinResponse
           \<lparr>pb_MixinResponse_Action = MixinResponse_NEXT, pb_MixinResponse_Output = [],
            pb_MixinResponse_Error = ''first'', pb_MixinResponse_ModifiedInput = [],
            pb_MixinResponse_Notifications = []\<rparr>\<rparr>, q, [''first''])" for q
    by (simp add: callMixin_def tagMixin_def reply_def noJSON_def)
  from first_mixin_only [OF r b t, of "''demo''" "''1.0''" noJSON "[]"] have
    "handleMixin noJSON ?req (addMixins ?regs (New ''demo'' ''1.0'')) [] =
       callMixin noJSON (tagMixin ''first'') ?req (addMixins ?regs (New ''demo'' ''1.0'')) []"
    by blast
  then show ?thesis
    unfolding c .
qed

section \<open>Schedules\<close>

lemma splitKey_from_colon:
  "CHR '':'' \<notin> set a \<Longrightarrow> i \<le> length a \<Longrightarrow> splitKey_from (a @ CHR '':'' # b) i = (a, b)"
proof (induction "length a - i" arbitrary: i)
  case 0
  then have "i = length a" by simp
  then show ?case
    by (simp add: splitKey_from.simps [of "a @ CHR '':'' # b" "length a"])
next
  case (Suc n)
  then have lt: "i < length a" by simp
  with Suc.prems have "(a @ CHR '':'' # b) ! i \<noteq> CHR '':''"
    by (metis nth_append nth_mem)
  moreover have "splitKey_from (a @ CHR '':'' # b) (i + 1) = (a, b)"
    using Suc lt by (intro Suc.hyps(1)) auto
  ultimately show ?case
    using lt by (simp add: splitKey_from.simps [of "a @ CHR '':'' # b" i])
qed

lemma splitKey_from_none:
  "CHR '':'' \<notin> set key \<Longrightarrow> splitKey_from key i = (key, [])"
proof (induction "length key - i" arbitrary: i)
  case 0
  then show ?case
    by (simp add: splitKey_from.simps [of key i])
next
  case (Suc n)
  then have lt: "i < length key" by simp
  with Suc.prems have "key ! i \<noteq> CHR '':''"
    by (metis nth_mem)
  moreover have "splitKey_from key (i + 1) = (key, [])"
    using Suc lt by (intro Suc.hyps(1)) auto
  ultimately show ?case
    using lt by (simp add: splitKey_from.simps [of key i])
qed

lemma splitKey_colon: "CHR '':'' \<notin> set a \<Longrightarrow> splitKey (a @ '':'' @ b) = (a, b)"
  using splitKey_from_colon [of a 0 b] by (simp add: splitKey_def)

lemma splitKey_none: "CHR '':'' \<notin> set key \<Longrightarrow> splitKey key = (key, [])"
  by (simp add: splitKey_def splitKey_from_none)

lemma fst_splitKey: "fst (splitKey key) = takeWhile (\<lambda>c. c \<noteq> CHR '':'') key"
proof (cases "CHR '':'' \<in> set key")
  case False
  then have "takeWhile (\<lambda>c. c \<noteq> CHR '':'') key = key"
    by (intro takeWhile_eq_all_conv [THEN iffD2]) auto
  moreover from False have "splitKey key = (key, [])"
    by (rule splitKey_none)
  ultimately show ?thesis
    by (metis fst_conv)
next
  case True
  let ?P = "\<lambda>c. c \<noteq> CHR '':''"
  from True have ne: "dropWhile ?P key \<noteq> []"
    by simp
  then have "\<not> ?P (hd (dropWhile ?P key))"
    by (rule hd_dropWhile)
  with ne obtain b where d: "dropWhile ?P key = CHR '':'' # b"
    by (cases "dropWhile ?P key") auto
  have "key = takeWhile ?P key @ dropWhile ?P key"
    by simp
  with d have key: "key = takeWhile ?P key @ '':'' @ b"
    by simp
  have "CHR '':'' \<notin> set (takeWhile ?P key)"
    by (auto dest: set_takeWhileD)
  then have "splitKey (takeWhile ?P key @ '':'' @ b) = (takeWhile ?P key, b)"
    by (rule splitKey_colon)
  with key have "splitKey key = (takeWhile ?P key, b)"
    by simp
  then show ?thesis
    by simp
qed

lemma fst_splitKey_no_colon: "CHR '':'' \<notin> set (fst (splitKey key))"
  by (auto simp: fst_splitKey dest: set_takeWhileD)


lemma scheduleLoop_Cons:
  "scheduleLoop ((key, handler) # rest) scheduleId w =
     (if fst (splitKey key) = scheduleId
      then (case handler of None \<Rightarrow> Inl Panic | Some h \<Rightarrow> Inr (h w))
      else scheduleLoop rest scheduleId w)"
  by (simp add: case_prod_beta)

lemma scheduleLoop_skip:
  "\<forall>(k, h) \<in> set xs. fst (splitKey k) \<noteq> scheduleId \<Longrightarrow> scheduleLoop xs scheduleId w = Inr w"
proof (induction xs)
  case Nil
  show ?case by simp
next
  case (Cons x xs)
  obtain key handler where x: "x = (key, handler)"
    by (cases x)
  from Cons.prems have "fst (splitKey key) \<noteq> scheduleId"
    by (simp add: x)
  moreover from Cons have "scheduleLoop xs scheduleId w = Inr w"
    by simp
  ultimately show ?case
    unfolding x scheduleLoop_Cons by simp
qed

lemma scheduleLoop_only:
  "(k0, h0) \<in> set xs \<Longrightarrow> fst (splitKey k0) = scheduleId \<Longrightarrow>
   \<forall>(k, h) \<in> set xs. fst (splitKey k) = scheduleId \<longrightarrow> k = k0 \<and> h = h0 \<Longrightarrow>
   scheduleLoop xs scheduleId w = (case h0 of None \<Rightarrow> Inl Panic | Some f \<Rightarrow> Inr (f w))"
proof (induction xs)
  case Nil
  then show ?case by simp
next
  case (Cons x xs)
  obtain key handler where x: "x = (key, handler)"
    by (cases x)
  show ?case
  proof (cases "fst (splitKey key) = scheduleId")
    case True
    with Cons.prems(3) have "key = k0" "handler = h0"
      by (auto simp: x)
    with True show ?thesis
      unfolding x scheduleLoop_Cons by simp
  next
    case False
    with Cons.prems have "(k0, h0) \<in> set xs"
      by (auto simp: x)
    moreover from Cons.prems(3)
    have "\<forall>(k, h) \<in> set xs. fst (splitKey k) = scheduleId \<longrightarrow> k = k0 \<and> h = h0"
      by auto
    ultimately have "scheduleLoop xs scheduleId w =
        (case h0 of None \<Rightarrow> Inl Panic | Some f \<Rightarrow> Inr (f w))"
      using Cons.IH Cons.prems(2) by blast
    with False show ?thesis
      unfolding x scheduleLoop_Cons by simp
  qed
qed

lemma scheduleLoop_find:
  "scheduleLoop xs scheduleId w =
     (case List.find (\<lambda>(k, h). fst (splitKey k) = scheduleId) xs of
        None \<Rightarrow> Inr w
      | Some (k, h) \<Rightarrow> (case h of None \<Rightarrow> Inl Panic | Some f \<Rightarrow> Inr (f w)))"
proof (induction xs)
  case Nil
  show ?case by simp
next
  case (Cons x xs)
  obtain key handler where x: "x = (key, handler)"
    by (cases x)
  show ?case
    unfolding x scheduleLoop_Cons using Cons.IH by simp
qed

text \<open>
  Claim C10, amended. \<open>Schedule\<close> stores the handler under the key \<open>id:cron\<close>, and
  \<open>splitKey\<close> splits a key at its first colon (giving the key and the empty string when
  there is none), so the part of a registered key before its first colon is the part of
  the id before its first colon. A trigger is compared with that part of each key, in the
  order of the traversal of the schedule map: the handler of the first key in that order
  that agrees runs, and no other; when no key agrees none runs. Hence a trigger with the
  truncated id (the id itself when it has no colon) runs the handler registered under
  \<open>id:cron\<close> provided no other registered key has the same part before its first colon;
  and a trigger whose id has a colon runs no handler, so a registered id with a colon is
  never triggered by the full id.
\<close>

theorem schedule_dispatch:
  "schedule (Schedule i cron h p) (i @ '':'' @ cron) = Some h
   \<and> (CHR '':'' \<notin> set a \<longrightarrow> splitKey (a @ '':'' @ b) = (a, b))
   \<and> (CHR '':'' \<notin> set key \<longrightarrow> splitKey key = (key, []))
   \<and> fst (splitKey (i @ '':'' @ cron)) = takeWhile (\<lambda>c. c \<noteq> CHR '':'') i
   \<and> handleSchedule order req q w =
       (case List.find (\<lambda>(k, h). fst (splitKey k) = pb_ScheduleRequest_ScheduleId req)
               (rangeMap order (schedule q)) of
          None \<Rightarrow>
            Inr (\<lparr>PluginMessage_RequestId = [],
                  PluginMessage_Payload = PluginMessage_ScheduleResponse\<rparr>, q, w)
        | Some (k, h) \<Rightarrow>
            (case h of
               None \<Rightarrow> Inl Panic
             | Some g \<Rightarrow>
                 Inr (\<lparr>PluginMessage_RequestId = [],
                       PluginMessage_Payload = PluginMessage_ScheduleResponse\<rparr>, q, g w)))
   \<and> (rangeOrder (schedule q) order \<longrightarrow> map fst (rangeMap order (schedule q)) = order)
   \<and> (rangeOrder (schedule q) order \<and> schedule q (i @ '':'' @ cron) = Some (Some f) \<and>
        (\<forall>k \<in> dom (schedule q).
           fst (splitKey k) = takeWhile (\<lambda>c. c \<noteq> CHR '':'') i \<longrightarrow> k = i @ '':'' @ cron) \<longrightarrow>
      handleSchedule order \<lparr>pb_ScheduleRequest_ScheduleId = takeWhile (\<lambda>c. c \<noteq> CHR '':'') i\<rparr> q w =
        Inr (\<lparr>PluginMessage_RequestId = [], PluginMessage_Payload = PluginMessage_ScheduleResponse\<rparr>,
             q, f w))
   \<and> (CHR '':'' \<notin> set i \<longrightarrow> takeWhile (\<lambda>c. c \<noteq> CHR '':'') i = i)
   \<and> (CHR '':'' \<in> set scheduleId \<longrightarrow>
      handleSchedule order \<lparr>pb_ScheduleRequest_ScheduleId = scheduleId\<rparr> q w =
        Inr (\<lparr>PluginMessage_RequestId = [], PluginMessage_Payload = PluginMessage_ScheduleResponse\<rparr>,
             q, w))"
proof -
  let ?pre = "takeWhile (\<lambda>c. c \<noteq> CHR '':'') i"
  have stored: "schedule (Schedule i cron h p) (i @ '':'' @ cron) = Some h"
    by (simp add: Schedule_def)
  have full: "?pre = i" if "CHR '':'' \<notin> set i"
    using that by (intro takeWhile_eq_all_conv [THEN iffD2]) auto
  have prefix: "fst (splitKey (i @ '':'' @ cron)) = ?pre"
  proof (cases "CHR '':'' \<in> set i")
    case True
    then show ?thesis
      by (auto simp: fst_splitKey takeWhile_append)
  next
    case False
    then have "splitKey (i @ '':'' @ cron) = (i, cron)"
      by (rule splitKey_colon)
    with full [OF False] show ?thesis
      by (metis fst_conv)
  qed
  have runs: "handleSchedule order \<lparr>pb_ScheduleRequest_ScheduleId = ?pre\<rparr> q w =
        Inr (\<lparr>PluginMessage_RequestId = [], PluginMessage_Payload = PluginMessage_ScheduleResponse\<rparr>,
             q, f w)"
    if o: "rangeOrder (schedule q) order" and s: "schedule q (i @ '':'' @ cron) = Some (Some f)"
      and u: "\<forall>k \<in> dom (schedule q). fst (splitKey k) = ?pre \<longrightarrow> k = i @ '':'' @ cron"
  proof -
    let ?xs = "rangeMap order (schedule q)"
    have "(i @ '':'' @ cron, Some f) \<in> set ?xs"
      using rangeMap_set_iff [OF o] s by blast
    moreover have "\<forall>(k, h) \<in> set ?xs. fst (splitKey k) = ?pre \<longrightarrow> k = i @ '':'' @ cron \<and> h = Some f"
      using rangeMap_set_iff [OF o] u s by fastforce
    ultimately have "scheduleLoop ?xs ?pre w = Inr (f w)"
      using scheduleLoop_only [of "i @ '':'' @ cron" "Some f" ?xs ?pre w] prefix by simp
    then show ?thesis
      by (simp add: handleSchedule_def reply_def)
  qed
  have never: "handleSchedule order \<lparr>pb_ScheduleRequest_ScheduleId = scheduleId\<rparr> q w =
        Inr (\<lparr>PluginMessage_RequestId = [], PluginMessage_Payload = PluginMessage_ScheduleResponse\<rparr>,
             q, w)"
    if c: "CHR '':'' \<in> set scheduleId"
  proof -
    have "\<forall>(k, h) \<in> set (rangeMap order (schedule q)). fst (splitKey k) \<noteq> scheduleId"
      using c fst_splitKey_no_colon by fastforce
    then have "scheduleLoop (rangeMap order (schedule q)) scheduleId w = Inr w"
      by (rule scheduleLoop_skip)
    then show ?thesis
      by (simp add: handleSchedule_def reply_def)
  qed
  have first: "handleSchedule order req q w =
       (case List.find (\<lambda>(k, h). fst (splitKey k) = pb_ScheduleRequest_ScheduleId req)
               (rangeMap order (schedule q)) of
          None \<Rightarrow>
            Inr (\<lparr>PluginMessage_RequestId = [],
                  PluginMessage_Payload = PluginMessage_ScheduleResponse\<rparr>, q, w)
        | Some (k, h) \<Rightarrow>
            (case h of
               None \<Rightarrow> Inl Panic
             | Some g \<Rightarrow>
                 Inr (\<lparr>PluginMessage_RequestId = [],
                       PluginMessage_Payload = PluginMessage_ScheduleResponse\<rparr>, q, g w)))"
    by (simp add: handleSchedule_def scheduleLoop_find reply_def split: option.splits prod.splits)
  have all: "map fst (rangeMap order (schedule q)) = order" if "rangeOrder (schedule q) order"
    using that by (intro rangeMap_keys) (simp add: rangeOrder_def)
  from stored prefix first all runs full never splitKey_colon splitKey_none show ?thesis
    by blast
qed

text \<open>
  The theorem at the plugin with the jobs \<open>a\<close>, \<open>a:b\<close> and \<open>backup\<close>, in a traversal
  that meets the key of \<open>a:b\<close> first: the trigger \<open>backup\<close> runs the handler of
  \<open>backup\<close>, the trigger \<open>a\<close> runs the handler of the first agreeing key and no other,
  and the trigger \<open>a:b\<close> runs nothing.
\<close>

theorem schedule_dispatch_witness:
  "handleSchedule [''a:b:@daily'', ''backup:0 3 * * *'', ''a:@hourly'']
     \<lparr>pb_ScheduleRequest_ScheduleId = ''backup''\<rparr> threeJobsPlugin [] =
   Inr (\<lparr>PluginMessage_RequestId = [], PluginMessage_Payload = PluginMessage_ScheduleResponse\<rparr>,
        threeJobsPlugin, [''backup''])
   \<and> handleSchedule [''a:b:@daily'', ''backup:0 3 * * *'', ''a:@hourly'']
     \<lparr>pb_ScheduleRequest_ScheduleId = ''a''\<rparr> threeJobsPlugin [] =
   Inr (\<lparr>PluginMessage_RequestId = [], PluginMessage_Payload = PluginMessage_ScheduleResponse\<rparr>,
        threeJobsPlugin, [''a:b''])
   \<and> handleSchedule [''a:b:@daily'', ''backup:0 3 * * *'', ''a:@hourly'']
     \<lparr>pb_ScheduleRequest_ScheduleId = ''a:b''\<rparr> threeJobsPlugin [] =
   Inr (\<lparr>PluginMessage_RequestId = [], PluginMessage_Payload = PluginMessage_ScheduleResponse\<rparr>,
        threeJobsPlugin, [])"
proof -
  let ?order = "[''a:b:@daily'', ''backup:0 3 * * *'', ''a:@hourly'']"
  note plugin = threeJobsPlugin_def jobsPlugin_def emptyPlugin_def Schedule_def New_def
  have o: "rangeOrder (schedule threeJobsPlugin) ?order"
    by (auto simp add: rangeOrder_def plugin)
  have s: "schedule threeJobsPlugin (''backup'' @ '':'' @ ''0 3 * * *'') =
      Some (Some (\<lambda>w. w @ [''backup'']))"
    by (simp add: plugin tagSchedule_def)
  have t: "takeWhile (\<lambda>c. c \<noteq> CHR '':'') ''backup'' = ''backup''"
    by simp
  have ab: "splitKey ''a:b:@daily'' = (''a'', ''b:@daily'')"
    using splitKey_colon [of "''a''" "''b:@daily''"] by simp
  have a: "splitKey ''a:@hourly'' = (''a'', ''@hourly'')"
    using splitKey_colon [of "''a''" "''@hourly''"] by simp
  have bk: "splitKey ''backup:0 3 * * *'' = (''backup'', ''0 3 * * *'')"
    using splitKey_colon [of "''backup''" "''0 3 * * *''"] by simp
  have d: "dom (schedule threeJobsPlugin) = {''backup:0 3 * * *'', ''a:b:@daily'', ''a:@hourly''}"
    by (auto simp add: plugin)
  have u: "\<forall>k \<in> dom (schedule threeJobsPlugin).
      fst (splitKey k) = takeWhile (\<lambda>c. c \<noteq> CHR '':'') ''backup'' \<longrightarrow>
      k = ''backup'' @ '':'' @ ''0 3 * * *''"
    unfolding d by (simp add: ab a bk)
  have c: "CHR '':'' \<in> set ''a:b''"
    by simp
  have m: "rangeMap ?order (schedule threeJobsPlugin) =
      [(''a:b:@daily'', tagSchedule ''a:b''), (''backup:0 3 * * *'', tagSchedule ''backup''),
       (''a:@hourly'', tagSchedule ''a'')]"
    by (simp add: plugin)
  note inst = schedule_dispatch [where i = "''backup''" and cron = "''0 3 * * *''"
      and q = threeJobsPlugin and order = ?order and f = "\<lambda>w. w @ [''backup'']" and w = "[]"
      and scheduleId = "''a:b''" and req = "\<lparr>pb_ScheduleRequest_ScheduleId = ''a''\<rparr>"]
  from inst o s u have "handleSchedule ?order
      \<lparr>pb_ScheduleRequest_ScheduleId = takeWhile (\<lambda>c. c \<noteq> CHR '':'') ''backup''\<rparr>
      threeJobsPlugin [] =
    Inr (\<lparr>PluginMessage_RequestId = [], PluginMessage_Payload = PluginMessage_ScheduleResponse\<rparr>,
        threeJobsPlugin, [] @ [''backup''])"
    by blast
  then have one: "handleSchedule ?order \<lparr>pb_ScheduleRequest_ScheduleId = ''backup''\<rparr>
      threeJobsPlugin [] =
    Inr (\<lparr>PluginMessage_RequestId = [], PluginMessage_Payload = PluginMessage_ScheduleResponse\<rparr>,
        threeJobsPlugin, [''backup''])"
    unfolding t by simp
  from inst have "handleSchedule ?order \<lparr>pb_ScheduleRequest_ScheduleId = ''a''\<rparr> threeJobsPlugin [] =
       (case List.find (\<lambda>(k, h). fst (splitKey k) =
                 pb_ScheduleRequest_ScheduleId \<lparr>pb_ScheduleRequest_ScheduleId = ''a''\<rparr>)
               (rangeMap ?order (schedule threeJobsPlugin)) of
          None \<Rightarrow>
            Inr (\<lparr>PluginMessage_RequestId = [],
                  PluginMessage_Payload = PluginMessage_ScheduleResponse\<rparr>, threeJobsPlugin, [])
        | Some (k, h) \<Rightarrow>
            (case h of
               None \<Rightarrow> Inl Panic
             | Some g \<Rightarrow>
                 Inr (\<lparr>PluginMessage_RequestId = [],
                       PluginMessage_Payload = PluginMessage_ScheduleResponse\<rparr>,
                      threeJobsPlugin, g [])))"
    by blast
  then have two: "handleSchedule ?order \<lparr>pb_ScheduleRequest_ScheduleId = ''a''\<rparr>
      threeJobsPlugin [] =
    Inr (\<lparr>PluginMessage_RequestId = [], PluginMessage_Payload = PluginMessage_ScheduleResponse\<rparr>,
        threeJobsPlugin, [''a:b''])"
    unfolding m by (simp add: ab tagSchedule_def)
  from inst c have three: "handleSchedule ?order \<lparr>pb_ScheduleRequest_ScheduleId = ''a:b''\<rparr>
      threeJobsPlugin [] =
    Inr (\<lparr>PluginMessage_RequestId = [], PluginMessage_Payload = PluginMessage_ScheduleResponse\<rparr>,
        threeJobsPlugin, [])"
    by blast
  from one two three show ?thesis
    by blast
qed

text \<open>
  The claim as stated fails: with the jobs \<open>a\<close> and \<open>a:b\<close> registered, both keys have
  \<open>a\<close> before their first colon, and in a traversal that meets the key of \<open>a:b\<close> first
  the trigger \<open>a\<close> runs the handler of \<open>a:b\<close> and not the handler registered for \<open>a\<close>.
\<close>

theorem schedule_prefix_counterexample:
  "rangeOrder (schedule jobsPlugin) [''a:b:@daily'', ''a:@hourly'']
   \<and> schedule jobsPlugin (''a'' @ '':'' @ ''@hourly'') = Some (tagSchedule ''a'')
   \<and> handleSchedule [''a:b:@daily'', ''a:@hourly''] \<lparr>pb_ScheduleRequest_ScheduleId = ''a''\<rparr>
        jobsPlugin [] =
      Inr (\<lparr>PluginMessage_RequestId = [], PluginMessage_Payload = PluginMessage_ScheduleResponse\<rparr>,
           jobsPlugin, [''a:b''])
   \<and> handleSchedule [''a:b:@daily'', ''a:@hourly''] \<lparr>pb_ScheduleRequest_ScheduleId = ''a''\<rparr>
        jobsPlugin [] \<noteq>
      Inr (\<lparr>PluginMessage_RequestId = [], PluginMessage_Payload = PluginMessage_ScheduleResponse\<rparr>,
           jobsPlugin, [''a''])"
proof -
  have ab: "splitKey ''a:b:@daily'' = (''a'', ''b:@daily'')"
    using splitKey_colon [of "''a''" "''b:@daily''"] by simp
  have "rangeOrder (schedule jobsPlugin) [''a:b:@daily'', ''a:@hourly'']"
    by (auto simp add: rangeOrder_def jobsPlugin_def emptyPlugin_def Schedule_def New_def)
  moreover have "schedule jobsPlugin (''a'' @ '':'' @ ''@hourly'') = Some (tagSchedule ''a'')"
    by (simp add: jobsPlugin_def emptyPlugin_def Schedule_def New_def)
  moreover have "rangeMap [''a:b:@daily'', ''a:@hourly''] (schedule jobsPlugin) =
      [(''a:b:@daily'', tagSchedule ''a:b''), (''a:@hourly'', tagSchedule ''a'')]"
    by (simp add: jobsPlugin_def emptyPlugin_def Schedule_def New_def)
  then have "handleSchedule [''a:b:@daily'', ''a:@hourly''] \<lparr>pb_ScheduleRequest_ScheduleId = ''a''\<rparr>
        jobsPlugin [] =
      Inr (\<lparr>PluginMessage_RequestId = [], PluginMessage_Payload = PluginMessage_ScheduleResponse\<rparr>,
           jobsPlugin, [''a:b''])"
    by (simp add: handleSchedule_def scheduleLoop_Cons ab tagSchedule_def reply_def
        del: scheduleLoop.simps(2))
  ultimately show ?thesis
    by simp
qed

section \<open>The correlation table when the connection closes\<close>

lemma handleEvent_plugin: "handleEvent ev p w = Inr (resp, p', w') \<Longrightarrow> p' = p"
  by (auto simp: handleEvent_def Let_def split: option.splits prod.splits)

lemma handleHTTP_plugin: "handleHTTP J order req p w = Inr (resp, p', w') \<Longrightarrow> p' = p"
  by (auto simp: handleHTTP_def callRoute_def Let_def split: option.splits prod.splits)

lemma handleSchedule_plugin: "handleSchedule order req p w = Inr (resp, p', w') \<Longrightarrow> p' = p"
  by (auto simp: handleSchedule_def split: sum.splits)

lemma handleMixin_plugin: "handleMixin J req p w = Inr (resp, p', w') \<Longrightarrow> p' = p"
  by (auto simp: handleMixin_def callMixin_def Let_def split: option.splits prod.splits)

lemma handleAddonType_plugin: "handleAddonType req p w = Inr (resp, p', w') \<Longrightarrow> p' = p"
  by (auto simp: handleAddonType_def Let_def split: option.splits prod.splits)

lemma respond_plugin:
  "respond msg r = Inr (out, p', w') \<Longrightarrow> \<exists>resp. r = Inr (resp, p', w')"
  by (auto simp: respond_def split: sum.splits prod.splits)

lemma handleMessage_plugin: "handleMessage J order msg p w = Inr (out, p', w') \<Longrightarrow> p' = p"
  by (cases "PanelMessage_Payload msg")
    (auto simp: handleMessage_def dest!: respond_plugin
       dest: handleEvent_plugin handleHTTP_plugin handleSchedule_plugin handleMixin_plugin
         handleAddonType_plugin)

lemma recvLoop_plugin: "run_plugin (recvLoop J rs r) = run_plugin r"
proof (induction J rs r rule: recvLoop.induct)
  case (1 J r)
  show ?case by simp
next
  case (2 J err order rest r)
  show ?case by simp
next
  case (3 J msg order rest r)
  show ?case
  proof (cases "handleMessage J order msg (run_plugin r) (run_world r)")
    case (Inl f)
    then show ?thesis
      by (cases f) simp_all
  next
    case (Inr res)
    obtain out p' w' where res: "res = (out, p', w')"
      by (cases res)
    with Inr have "p' = run_plugin r"
      by (auto dest: handleMessage_plugin)
    with Inr res "3.IH" [of res out "(p', w')" p' w'] show ?thesis
      by simp
  qed
qed

lemma Start_plugin:
  "run_plugin (Start J e addr p w) =
     p\<lparr>dataDir := (if length (os_Args e) > 2
                    then filepath_Join e (os_Args e ! 2) (plugin_id p @ ''_data'')
                    else plugin_id p @ ''_data'')\<rparr>"
  by (simp add: Start_def Let_def recvLoop_plugin split: option.splits list.splits sum.splits prod.splits)

lemma run_end_first:
  "r\<lparr>run_end := x, run_plugin := p', run_world := w', run_sent := s\<rparr> =
   r\<lparr>run_plugin := p', run_world := w', run_sent := s\<rparr>\<lparr>run_end := x\<rparr>"
  by (cases r) simp

lemma recvLoop_Inr:
  "recvLoop J ((Inr msg, order) # rest) r =
     (case handleMessage J order msg (run_plugin r) (run_world r) of
        Inl Panic \<Rightarrow> r\<lparr>run_end := Panicked\<rparr>
      | Inl (Exit n) \<Rightarrow> r\<lparr>run_end := Exited n\<rparr>
      | Inr (out, p', w') \<Rightarrow>
          recvLoop J rest (r\<lparr>run_plugin := p', run_world := w', run_sent := run_sent r @ out\<rparr>))"
  by (rule recvLoop.simps)

lemma recvLoop_end_irrelevant: "recvLoop J rs (r\<lparr>run_end := x\<rparr>) = recvLoop J rs r"
proof (induction rs arbitrary: r)
  case Nil
  show ?case by simp
next
  case (Cons a rs)
  obtain reply order where a: "a = (reply, order)"
    by (cases a)
  show ?case
  proof (cases reply)
    case (Inl err)
    then show ?thesis
      by (simp add: a)
  next
    case (Inr msg)
    show ?thesis
    proof (cases "handleMessage J order msg (run_plugin r) (run_world r)")
      case (Inl f)
      then show ?thesis
        by (cases f) (simp_all add: a Inr)
    next
      case res: (Inr res)
      obtain out p' w' where r: "res = (out, p', w')"
        by (cases res)
      have "recvLoop J rs (r\<lparr>run_end := x, run_plugin := p', run_world := w',
                               run_sent := run_sent r @ out\<rparr>) =
        recvLoop J rs (r\<lparr>run_plugin := p', run_world := w', run_sent := run_sent r @ out\<rparr>)"
        unfolding run_end_first by (rule Cons.IH)
      then show ?thesis
        by (simp add: a Inr res r del: recvLoop.simps)
          (simp add: recvLoop_Inr res r del: recvLoop.simps)
    qed
  qed
qed

lemma recvLoop_append:
  "run_end (recvLoop J pre r) = Waiting \<Longrightarrow>
   recvLoop J (pre @ rest) r = recvLoop J rest (recvLoop J pre r)"
proof (induction pre arbitrary: r)
  case Nil
  show ?case by (simp add: recvLoop_end_irrelevant)
next
  case (Cons a pre)
  obtain reply order where a: "a = (reply, order)"
    by (cases a)
  show ?case
  proof (cases reply)
    case (Inl err)
    with Cons.prems show ?thesis
      by (simp add: a split: if_splits)
  next
    case (Inr msg)
    show ?thesis
    proof (cases "handleMessage J order msg (run_plugin r) (run_world r)")
      case (Inl f)
      with Cons.prems show ?thesis
        by (cases f) (simp_all add: a Inr)
    next
      case res: (Inr res)
      obtain out p' w' where r: "res = (out, p', w')"
        by (cases res)
      let ?r = "r\<lparr>run_plugin := p', run_world := w', run_sent := run_sent r @ out\<rparr>"
      have one: "recvLoop J ((Inr msg, order) # pre) r = recvLoop J pre ?r"
        by (simp add: recvLoop_Inr res r del: recvLoop.simps)
      have two: "recvLoop J ((Inr msg, order) # pre @ rest) r = recvLoop J (pre @ rest) ?r"
        by (simp add: recvLoop_Inr res r del: recvLoop.simps)
      from Cons.prems have "run_end (recvLoop J pre ?r) = Waiting"
        unfolding a Inr one .
      then have "recvLoop J (pre @ rest) ?r = recvLoop J rest (recvLoop J pre ?r)"
        by (rule Cons.IH)
      then show ?thesis
        unfolding a Inr append_Cons one two .
    qed
  qed
qed

lemma recvLoop_close:
  "recvLoop J ((Inl io_EOF, order) # rest) r = r\<lparr>run_end := Returned None\<rparr>"
  "err \<noteq> io_EOF \<Longrightarrow> recvLoop J ((Inl err, order) # rest) r = r\<lparr>run_end := Returned (Some err)\<rparr>"
  "PanelMessage_Payload msg = PanelMessage_Shutdown \<Longrightarrow>
     recvLoop J ((Inr msg, order) # rest) r = r\<lparr>run_end := Exited 0\<rparr>"
  by (simp_all add: handleMessage_def)

lemma Start_Registered:
  assumes "NewClient_err e = None" and "Connect_err e = None" and "Send_err e = None"
    and "Recv e = (Inr msg, order) # later"
    and "PanelMessage_Payload msg = PanelMessage_Registered"
  shows "Start J e addr p w =
     recvLoop J later
       \<lparr>run_end = Waiting,
        run_plugin = p\<lparr>dataDir := (if length (os_Args e) > 2
                                     then filepath_Join e (os_Args e ! 2) (plugin_id p @ ''_data'')
                                     else plugin_id p @ ''_data'')\<rparr>,
        run_world = (case onStart p of None \<Rightarrow> w | Some f \<Rightarrow> f w),
        run_addr = (if length (os_Args e) > 1 then os_Args e ! 1 else addr),
        run_sent = [reply (PluginMessage_Register (buildInfo
          (p\<lparr>dataDir := (if length (os_Args e) > 2
                           then filepath_Join e (os_Args e ! 2) (plugin_id p @ ''_data'')
                           else plugin_id p @ ''_data'')\<rparr>)))],
        run_logged = [name p @ '' v'' @ version p @ '' started'']\<rparr>"
  using assms by (simp add: Start_def Let_def split: option.splits)

lemma Start_connected:
  assumes "stream \<noteq> []" and "run_end (Start J (e\<lparr>Recv := stream\<rparr>) addr p w) = Waiting"
  shows "\<exists>r0 later. (\<forall>rest. Start J (e\<lparr>Recv := stream @ rest\<rparr>) addr p w = recvLoop J (later @ rest) r0)
           \<and> Start J (e\<lparr>Recv := stream\<rparr>) addr p w = recvLoop J later r0"
proof -
  from assms(1) obtain x later where stream: "stream = x # later"
    by (cases stream) auto
  obtain reply order where x: "x = (reply, order)"
    by (cases x)
  from assms(2) have n: "NewClient_err e = None" and c: "Connect_err e = None" and s: "Send_err e = None"
    by (auto simp: Start_def Let_def split: option.splits)
  from assms(2) n c s obtain msg where reply: "reply = Inr msg"
    by (cases reply) (auto simp: Start_def Let_def stream x)
  from assms(2) n c s have ack: "PanelMessage_Payload msg = PanelMessage_Registered"
    by (auto simp: Start_def Let_def stream x reply split: if_splits)
  have "Start J (e\<lparr>Recv := (Inr msg, order) # later'\<rparr>) addr p w =
     recvLoop J later'
       \<lparr>run_end = Waiting,
        run_plugin = p\<lparr>dataDir := (if length (os_Args e) > 2
                                     then filepath_Join e (os_Args e ! 2) (plugin_id p @ ''_data'')
                                     else plugin_id p @ ''_data'')\<rparr>,
        run_world = (case onStart p of None \<Rightarrow> w | Some f \<Rightarrow> f w),
        run_addr = (if length (os_Args e) > 1 then os_Args e ! 1 else addr),
        run_sent = [Spec2Isabelle.reply (PluginMessage_Register (buildInfo
          (p\<lparr>dataDir := (if length (os_Args e) > 2
                           then filepath_Join e (os_Args e ! 2) (plugin_id p @ ''_data'')
                           else plugin_id p @ ''_data'')\<rparr>)))],
        run_logged = [name p @ '' v'' @ version p @ '' started'']\<rparr>" for later'
    using Start_Registered [of "e\<lparr>Recv := (Inr msg, order) # later'\<rparr>" msg order later' J addr p w]
      n c s ack by simp
  then show ?thesis
    unfolding stream x reply by (metis append_Cons)
qed

text \<open>
  Claim C1, amended. When the connection is open (the handshake is done and \<open>Start\<close> waits
  in \<open>Recv\<close>) and it then closes, \<open>Start\<close> ends as follows and does nothing else: on
  end of stream it returns nil, on a transport error it returns the error, and on a
  Shutdown envelope the process exits with status 0; nothing is sent, and the plugin and
  the handlers' state stay as they were before the closing event. The correlation table
  is never written, by no run of \<open>Start\<close>: the table after is the table before, so a
  receptacle that is pending is left in the table, not fulfilled.
\<close>

theorem Start_close:
  assumes "stream \<noteq> []" and "run_end (Start J (e\<lparr>Recv := stream\<rparr>) addr p w) = Waiting"
  shows "Start J (e\<lparr>Recv := stream @ (Inl io_EOF, order) # rest\<rparr>) addr p w =
           (Start J (e\<lparr>Recv := stream\<rparr>) addr p w)\<lparr>run_end := Returned None\<rparr>
     \<and> (err \<noteq> io_EOF \<longrightarrow>
          Start J (e\<lparr>Recv := stream @ (Inl err, order) # rest\<rparr>) addr p w =
            (Start J (e\<lparr>Recv := stream\<rparr>) addr p w)\<lparr>run_end := Returned (Some err)\<rparr>)
     \<and> (PanelMessage_Payload msg = PanelMessage_Shutdown \<longrightarrow>
          Start J (e\<lparr>Recv := stream @ (Inr msg, order) # rest\<rparr>) addr p w =
            (Start J (e\<lparr>Recv := stream\<rparr>) addr p w)\<lparr>run_end := Exited 0\<rparr>)
     \<and> pending (run_plugin (Start J (e\<lparr>Recv := stream\<rparr>) addr p w)) = pending p
     \<and> (\<forall>e'. pending (run_plugin (Start J e' addr p w)) = pending p)"
proof -
  from Start_connected [OF assms] obtain r0 later
    where ext: "\<And>rest. Start J (e\<lparr>Recv := stream @ rest\<rparr>) addr p w = recvLoop J (later @ rest) r0"
      and cut: "Start J (e\<lparr>Recv := stream\<rparr>) addr p w = recvLoop J later r0"
    by blast
  from assms(2) cut have wait: "run_end (recvLoop J later r0) = Waiting"
    by simp
  have step: "Start J (e\<lparr>Recv := stream @ x # rest\<rparr>) addr p w =
      recvLoop J (x # rest) (Start J (e\<lparr>Recv := stream\<rparr>) addr p w)" for x
    using ext [of "x # rest"] recvLoop_append [OF wait, of "x # rest"] cut by simp
  have eof: "Start J (e\<lparr>Recv := stream @ (Inl io_EOF, order) # rest\<rparr>) addr p w =
           (Start J (e\<lparr>Recv := stream\<rparr>) addr p w)\<lparr>run_end := Returned None\<rparr>"
    unfolding step by (rule recvLoop_close)
  have err: "Start J (e\<lparr>Recv := stream @ (Inl err, order) # rest\<rparr>) addr p w =
            (Start J (e\<lparr>Recv := stream\<rparr>) addr p w)\<lparr>run_end := Returned (Some err)\<rparr>"
    if "err \<noteq> io_EOF"
    unfolding step using that by (rule recvLoop_close)
  have shutdown: "Start J (e\<lparr>Recv := stream @ (Inr msg, order) # rest\<rparr>) addr p w =
            (Start J (e\<lparr>Recv := stream\<rparr>) addr p w)\<lparr>run_end := Exited 0\<rparr>"
    if "PanelMessage_Payload msg = PanelMessage_Shutdown"
    unfolding step using that by (rule recvLoop_close)
  have table: "pending (run_plugin (Start J e' addr p w)) = pending p" for e'
    by (simp add: Start_plugin)
  from eof err shutdown table show ?thesis
    by blast
qed


text \<open>
  The theorem at the plugin with one call registered, connected and with one event
  dispatched before the connection closes.
\<close>

theorem Start_close_witness:
  "run_end (Start noJSON
      (transport [(Inr (panelMessage [] PanelMessage_Registered), []),
                  (Inr (panelMessage ''1'' (PanelMessage_Event
                     \<lparr>pb_Event_Type = ''server.start'', pb_Event_Data = Map.empty,
                      pb_Event_Sync = True\<rparr>)), []),
                  (Inl io_EOF, [])])
      ''127.0.0.1:50050'' callingPlugin []) = Returned None
   \<and> run_end (Start noJSON
      (transport [(Inr (panelMessage [] PanelMessage_Registered), []),
                  (Inr (panelMessage ''1'' (PanelMessage_Event
                     \<lparr>pb_Event_Type = ''server.start'', pb_Event_Data = Map.empty,
                      pb_Event_Sync = True\<rparr>)), []),
                  (Inl (stream_error ''reset''), [])])
      ''127.0.0.1:50050'' callingPlugin []) = Returned (Some (stream_error ''reset''))
   \<and> run_end (Start noJSON
      (transport [(Inr (panelMessage [] PanelMessage_Registered), []),
                  (Inr (panelMessage ''1'' (PanelMessage_Event
                     \<lparr>pb_Event_Type = ''server.start'', pb_Event_Data = Map.empty,
                      pb_Event_Sync = True\<rparr>)), []),
                  (Inr (panelMessage ''2'' PanelMessage_Shutdown), [])])
      ''127.0.0.1:50050'' callingPlugin []) = Exited 0
   \<and> pending (run_plugin (Start noJSON
      (transport [(Inr (panelMessage [] PanelMessage_Registered), []),
                  (Inr (panelMessage ''1'' (PanelMessage_Event
                     \<lparr>pb_Event_Type = ''server.start'', pb_Event_Data = Map.empty,
                      pb_Event_Sync = True\<rparr>)), []),
                  (Inl io_EOF, [])])
      ''127.0.0.1:50050'' callingPlugin [])) = [''call-1'' \<mapsto> openChan]"
proof -
  let ?stream = "[(Inr (panelMessage [] PanelMessage_Registered), []),
                  (Inr (panelMessage ''1'' (PanelMessage_Event
                     \<lparr>pb_Event_Type = ''server.start'', pb_Event_Data = Map.empty,
                      pb_Event_Sync = True\<rparr>)), [])]"
  have t: "(transport [])\<lparr>Recv := xs\<rparr> = transport xs" for xs
    by (simp add: transport_def)
  have s: "?stream \<noteq> []"
    by simp
  have w: "run_end (Start noJSON ((transport [])\<lparr>Recv := ?stream\<rparr>) ''127.0.0.1:50050''
      callingPlugin []) = Waiting"
    by (simp add: Start_def Let_def transport_def panelMessage_def callingPlugin_def
        registerPending_def emptyPlugin_def New_def handleMessage_def handleEvent_def respond_def)
  have p: "pending callingPlugin = [''call-1'' \<mapsto> openChan]"
    by (simp add: callingPlugin_def registerPending_def emptyPlugin_def New_def openChan_def)
  have m: "PanelMessage_Payload (panelMessage ''2'' PanelMessage_Shutdown) = PanelMessage_Shutdown"
    and e: "stream_error ''reset'' \<noteq> io_EOF"
    by (simp_all add: panelMessage_def)
  from Start_close [OF s w, of "[]" "[]" "stream_error ''reset''"
      "panelMessage ''2'' PanelMessage_Shutdown"] m e
  show ?thesis
    unfolding t p by simp
qed

text \<open>
  The claim as stated fails: with one call registered in the table, the connection closes
  by end of stream, by a Shutdown envelope and by a transport error, and each time the
  receptacle is left in the table as it was, not fulfilled.
\<close>

theorem close_leaves_pending_counterexample:
  "run_end (Start noJSON
      (transport [(Inr (panelMessage [] PanelMessage_Registered), []), (Inl io_EOF, [])])
      ''127.0.0.1:50050'' callingPlugin []) = Returned None
   \<and> pending (run_plugin (Start noJSON
      (transport [(Inr (panelMessage [] PanelMessage_Registered), []), (Inl io_EOF, [])])
      ''127.0.0.1:50050'' callingPlugin [])) ''call-1'' = Some openChan
   \<and> run_end (Start noJSON
      (transport [(Inr (panelMessage [] PanelMessage_Registered), []),
                  (Inr (panelMessage ''9'' PanelMessage_Shutdown), [])])
      ''127.0.0.1:50050'' callingPlugin []) = Exited 0
   \<and> pending (run_plugin (Start noJSON
      (transport [(Inr (panelMessage [] PanelMessage_Registered), []),
                  (Inr (panelMessage ''9'' PanelMessage_Shutdown), [])])
      ''127.0.0.1:50050'' callingPlugin [])) ''call-1'' = Some openChan
   \<and> run_end (Start noJSON
      (transport [(Inr (panelMessage [] PanelMessage_Registered), []),
                  (Inl (stream_error ''reset''), [])])
      ''127.0.0.1:50050'' callingPlugin []) = Returned (Some (stream_error ''reset''))
   \<and> pending (run_plugin (Start noJSON
      (transport [(Inr (panelMessage [] PanelMessage_Registered), []),
                  (Inl (stream_error ''reset''), [])])
      ''127.0.0.1:50050'' callingPlugin [])) ''call-1'' = Some openChan
   \<and> \<not> fulfilled openChan"
  by (simp add: Start_def Let_def transport_def panelMessage_def callingPlugin_def
      registerPending_def emptyPlugin_def New_def handleMessage_def fulfilled_def openChan_def)

section \<open>The handshake\<close>

text \<open>
  After the registration is sent, the first \<open>Recv\<close> decides: an error (end of stream
  included) is returned; a reply that is not the acknowledgement makes \<open>Start\<close> return
  \<open>err\<close>, which is nil there; in both cases the receive loop is not entered (the start
  hook does not run and nothing is logged to the panel).
\<close>

lemma Start_handshake_error:
  assumes "NewClient_err e = None" and "Connect_err e = None" and "Send_err e = None"
    and "Recv e = (Inl err, order) # rest"
  shows "run_end (Start J e addr p w) = Returned (Some err)"
    and "run_world (Start J e addr p w) = w"
    and "run_logged (Start J e addr p w) = []"
  using assms by (simp_all add: Start_def Let_def)

lemma Start_handshake_other_reply:
  assumes "NewClient_err e = None" and "Connect_err e = None" and "Send_err e = None"
    and "Recv e = (Inr msg, order) # rest"
    and "PanelMessage_Payload msg \<noteq> PanelMessage_Registered"
  shows "run_end (Start J e addr p w) = Returned None"
    and "run_world (Start J e addr p w) = w"
    and "run_logged (Start J e addr p w) = []"
  using assms by (simp_all add: Start_def Let_def)

text \<open>
  Claim C3 says that \<open>Start\<close> reports a handshake failure, a non-nil error, when the first
  reply is not the acknowledgement. At a first reply that is a Shutdown envelope
  \<open>Start\<close> returns nil; it has not entered the receive loop. An end of stream in the
  handshake is returned as the error.
\<close>

theorem Start_wrong_first_reply:
  "run_end (Start noJSON (transport [(Inr (panelMessage ''1'' PanelMessage_Shutdown), [])])
      ''127.0.0.1:50050'' emptyPlugin []) = Returned None
   \<and> run_logged (Start noJSON (transport [(Inr (panelMessage ''1'' PanelMessage_Shutdown), [])])
      ''127.0.0.1:50050'' emptyPlugin []) = []
   \<and> run_end (Start noJSON (transport [(Inl io_EOF, [])])
      ''127.0.0.1:50050'' emptyPlugin []) = Returned (Some io_EOF)"
  by (simp add: Start_def Let_def transport_def panelMessage_def)

section \<open>Saving and loading the configuration\<close>



end
